theory Spec2Isabelle
  imports Main "HOL-Library.Sublist"
begin

section \<open>Values, exceptions and Python helpers\<close>

text \<open>
  The values that server.py receives from and hands to the Google API client are
  JSON-like Python objects. Python's unbounded integers are \<open>int\<close>; a dict is an
  association list in insertion order (looked up with \<open>map_of\<close>).
\<close>

datatype json =
    JNull
  | JBool bool
  | JInt int
  | JStr string
  | JList "json list"
  | JDict "(string \<times> json) list"

text \<open>
  What \<^verbatim>\<open>json.loads(e.content)\<close> does on the \<^verbatim>\<open>content\<close> attribute of an exception:
  it raises \<^verbatim>\<open>json.JSONDecodeError\<close>, raises \<^verbatim>\<open>UnicodeDecodeError\<close> (bytes that are
  not UTF-8; a \<^verbatim>\<open>ValueError\<close> that is not a \<^verbatim>\<open>JSONDecodeError\<close>), or returns a value.
\<close>

datatype loads_result = JSONDecodeError | UnicodeDecodeError | Loaded json

text \<open>
  A Python exception: \<open>exn_str\<close> is \<^verbatim>\<open>str(e)\<close>; \<open>exn_content\<close> is \<open>None\<close> when
  \<^verbatim>\<open>hasattr(e, 'content')\<close> is false, and otherwise what \<^verbatim>\<open>json.loads\<close> makes of it.
  Exceptions raised by the interpreter itself (\<^verbatim>\<open>KeyError\<close>, \<^verbatim>\<open>TypeError\<close>,
  \<^verbatim>\<open>AttributeError\<close>) carry the class name and a short detail as their text.
\<close>

datatype exn = Exn (exn_str: string) (exn_content: "loads_result option")

definition raise_error :: "string \<Rightarrow> exn" where
  "raise_error msg = Exn msg None"

text \<open>Truthiness of an \<^verbatim>\<open>Optional[str]\<close>: \<^verbatim>\<open>None\<close> and \<^verbatim>\<open>''\<close> are false.\<close>

definition truthy_str :: "string option \<Rightarrow> bool" where
  "truthy_str s = (case s of None \<Rightarrow> False | Some v \<Rightarrow> v \<noteq> [])"

text \<open>Truthiness of a JSON-like value.\<close>

definition truthy :: "json \<Rightarrow> bool" where
  "truthy v = (case v of
       JNull \<Rightarrow> False
     | JBool b \<Rightarrow> b
     | JInt i \<Rightarrow> i \<noteq> 0
     | JStr s \<Rightarrow> s \<noteq> []
     | JList xs \<Rightarrow> xs \<noteq> []
     | JDict kvs \<Rightarrow> kvs \<noteq> [])"

text \<open>\<^verbatim>\<open>d[k]\<close> with a string key.\<close>

definition subscript :: "json \<Rightarrow> string \<Rightarrow> exn + json" where
  "subscript d k = (case d of
       JDict kvs \<Rightarrow> (case map_of kvs k of
                       None \<Rightarrow> Inl (raise_error (''KeyError: '' @ k))
                     | Some v \<Rightarrow> Inr v)
     | _ \<Rightarrow> Inl (raise_error ''TypeError: indices must be integers or object is not subscriptable''))"

text \<open>\<^verbatim>\<open>d.get(k, default)\<close>: only a dict has the method.\<close>

definition py_get :: "json \<Rightarrow> string \<Rightarrow> json \<Rightarrow> exn + json" where
  "py_get d k dflt = (case d of
       JDict kvs \<Rightarrow> (case map_of kvs k of None \<Rightarrow> Inr dflt | Some v \<Rightarrow> Inr v)
     | _ \<Rightarrow> Inl (raise_error ''AttributeError: object has no attribute get''))"

text \<open>
  \<^verbatim>\<open>for s in v\<close>: a list yields its elements, a dict its keys, a string its characters;
  nothing else is iterable.
\<close>

definition py_iter :: "json \<Rightarrow> exn + json list" where
  "py_iter v = (case v of
       JList xs \<Rightarrow> Inr xs
     | JDict kvs \<Rightarrow> Inr (map (\<lambda>kv. JStr (fst kv)) kvs)
     | JStr s \<Rightarrow> Inr (map (\<lambda>c. JStr [c]) s)
     | _ \<Rightarrow> Inl (raise_error ''TypeError: object is not iterable''))"

text \<open>
  \<^verbatim>\<open>{**d, k: v}\<close> and \<^verbatim>\<open>d[k] = v\<close>: an existing key keeps its place and takes the
  new value, a new key goes last.
\<close>

fun dict_set :: "string \<Rightarrow> json \<Rightarrow> (string \<times> json) list \<Rightarrow> (string \<times> json) list" where
  "dict_set k v [] = [(k, v)]"
| "dict_set k v (p # ps) = (if fst p = k then (k, v) # ps else p # dict_set k v ps)"

definition has_key :: "json \<Rightarrow> string \<Rightarrow> bool" where
  "has_key d k = (case d of JDict kvs \<Rightarrow> map_of kvs k \<noteq> None | _ \<Rightarrow> False)"

section \<open>Configuration and the external collaborators of authentication\<close>

text \<open>
  A credentials object: only the attributes that \<^verbatim>\<open>authenticate_google_services\<close>
  reads. Every credentials object is truthy, so \<^verbatim>\<open>not creds\<close> holds exactly when
  \<^verbatim>\<open>creds is None\<close>.
\<close>

record creds =
  account :: string
  valid :: bool
  expired :: bool
  refresh_token :: "string option"

text \<open>A client handle built by \<^verbatim>\<open>build(name, version, credentials=creds)\<close>.\<close>

datatype service = Service string string creds

text \<open>
  The module constants (read from the process environment at import) and the library
  calls of the authentication chain, whose outcomes are given from outside:
  \<^item> \<open>from_service_account_info\<close>: \<^verbatim>\<open>json.loads\<close> of the blob followed by
    \<^verbatim>\<open>service_account.Credentials.from_service_account_info\<close>;
  \<^item> \<open>from_service_account_file\<close>: on the contents of the file;
  \<^item> \<open>from_authorized_user_info\<close>: \<^verbatim>\<open>json.load\<close> of the token file followed by
    \<^verbatim>\<open>Credentials.from_authorized_user_info\<close>;
  \<^item> \<open>refresh\<close>: \<^verbatim>\<open>creds.refresh(Request())\<close>, returning the refreshed object;
  \<^item> \<open>run_local_server\<close>: \<^verbatim>\<open>InstalledAppFlow.from_client_secrets_file\<close> on the contents
    of the client-secret file (\<open>None\<close> when there is none) and \<^verbatim>\<open>run_local_server\<close>;
  \<^item> \<open>writable\<close>: whether \<^verbatim>\<open>open(path, 'w')\<close> and the write succeed;
  \<^item> \<open>auth_default\<close>: \<^verbatim>\<open>google.auth.default(scopes=SCOPES)\<close>;
  \<^item> \<open>build_error\<close>: the exception \<^verbatim>\<open>build\<close> raises, if any;
  \<^item> \<open>py_str\<close>: Python's built-in \<^verbatim>\<open>str\<close> on a value that is not a string (what an
    f-string prints for it).
\<close>

record env =
  CREDENTIALS_CONFIG :: "string option"
  TOKEN_PATH :: string
  CREDENTIALS_PATH :: string
  SERVICE_ACCOUNT_PATH :: string
  DRIVE_FOLDER_ID :: string
  DEFAULT_SPREADSHEET_ID :: "string option"
  from_service_account_info :: "string \<Rightarrow> exn + creds"
  from_service_account_file :: "string \<Rightarrow> exn + creds"
  from_authorized_user_info :: "string \<Rightarrow> exn + creds"
  refresh :: "creds \<Rightarrow> exn + creds"
  run_local_server :: "string option \<Rightarrow> exn + creds"
  to_json :: "creds \<Rightarrow> string"
  writable :: "string \<Rightarrow> bool"
  auth_default :: "exn + creds"
  build_error :: "string \<Rightarrow> string \<Rightarrow> creds \<Rightarrow> exn option"
  py_str :: "json \<Rightarrow> string"

type_synonym file_system = "string \<Rightarrow> string option"

definition build :: "env \<Rightarrow> string \<Rightarrow> string \<Rightarrow> creds \<Rightarrow> exn + service" where
  "build e name version c = (case build_error e name version c of
       Some x \<Rightarrow> Inl x
     | None \<Rightarrow> Inr (Service name version c))"

section \<open>authenticate\_google\_services\<close>

text \<open>
  Lines 52-53: the inline blob. The call stands outside every \<^verbatim>\<open>try\<close>, so what it
  raises leaves the function.
\<close>

definition inline_config :: "env \<Rightarrow> exn + creds option" where
  "inline_config e =
     (if truthy_str (CREDENTIALS_CONFIG e)
      then (case from_service_account_info e (the (CREDENTIALS_CONFIG e)) of
              Inl x \<Rightarrow> Inl x
            | Inr c \<Rightarrow> Inr (Some c))
      else Inr None)"

text \<open>Lines 56-67: the service-account file, inside \<^verbatim>\<open>try / except Exception\<close>.\<close>

definition service_account_file :: "env \<Rightarrow> file_system \<Rightarrow> creds option \<Rightarrow> creds option" where
  "service_account_file e fs cr =
     (if cr = None \<and> SERVICE_ACCOUNT_PATH e \<noteq> [] \<and> fs (SERVICE_ACCOUNT_PATH e) \<noteq> None
      then (case from_service_account_file e (the (fs (SERVICE_ACCOUNT_PATH e))) of
              Inl x \<Rightarrow> None
            | Inr c \<Rightarrow> Some c)
      else cr)"

text \<open>
  Lines 82-91: the interactive flow and the saving of its token, inside
  \<^verbatim>\<open>try / except Exception\<close>: a failure of either leaves \<^verbatim>\<open>creds = None\<close>.
\<close>

definition installed_app_flow :: "env \<Rightarrow> file_system \<Rightarrow> creds option \<times> file_system" where
  "installed_app_flow e fs =
     (case run_local_server e (fs (CREDENTIALS_PATH e)) of
        Inl x \<Rightarrow> (None, fs)
      | Inr c \<Rightarrow>
          if writable e (TOKEN_PATH e)
          then (Some c, fs(TOKEN_PATH e \<mapsto> to_json e c))
          else (None, fs))"

text \<open>
  Lines 70-91: the stored token, its refresh, and the interactive flow. Loading the
  token and refreshing it stand outside every \<^verbatim>\<open>try\<close>.
\<close>

definition oauth :: "env \<Rightarrow> file_system \<Rightarrow> (exn + creds option) \<times> file_system" where
  "oauth e fs =
     (case (if fs (TOKEN_PATH e) \<noteq> None
            then (case from_authorized_user_info e (the (fs (TOKEN_PATH e))) of
                    Inl x \<Rightarrow> Inl x
                  | Inr c \<Rightarrow> Inr (Some c))
            else Inr None) of
        Inl x \<Rightarrow> (Inl x, fs)
      | Inr cr \<Rightarrow>
          if cr = None \<or> \<not> valid (the cr)
          then (if cr \<noteq> None \<and> expired (the cr) \<and> truthy_str (refresh_token (the cr))
                then (case refresh e (the cr) of
                        Inl x \<Rightarrow> (Inl x, fs)
                      | Inr c \<Rightarrow> (Inr (Some c), fs))
                else (case installed_app_flow e fs of (cr', fs') \<Rightarrow> (Inr cr', fs')))
          else (Inr cr, fs))"

text \<open>Lines 95-105: Application Default Credentials, the last strategy.\<close>

definition all_failed :: exn where
  "all_failed = raise_error ''All authentication methods failed. Please configure credentials.''"

definition application_default :: "env \<Rightarrow> creds option \<Rightarrow> exn + creds" where
  "application_default e cr =
     (if cr = None
      then (case auth_default e of Inl x \<Rightarrow> Inl all_failed | Inr c \<Rightarrow> Inr c)
      else Inr (the cr))"

text \<open>
  The whole function: the four blocks in the order of the source, then the two
  \<^verbatim>\<open>build\<close> calls. The \<^verbatim>\<open>print\<close> calls are left out. The result is the pair of
  services or the exception that left the function, with the file system as the
  function left it (the flow may have written the token file).
\<close>

definition authenticate_google_services ::
    "env \<Rightarrow> file_system \<Rightarrow> (exn + service \<times> service) \<times> file_system" where
  "authenticate_google_services e fs =
     (case inline_config e of
        Inl x \<Rightarrow> (Inl x, fs)
      | Inr cr1 \<Rightarrow>
          (case (if service_account_file e fs cr1 = None
                 then oauth e fs
                 else (Inr (service_account_file e fs cr1), fs)) of
             (Inl x, fs') \<Rightarrow> (Inl x, fs')
           | (Inr cr3, fs') \<Rightarrow>
               (case application_default e cr3 of
                  Inl x \<Rightarrow> (Inl x, fs')
                | Inr c \<Rightarrow>
                    (case build e ''sheets'' ''v4'' c of
                       Inl x \<Rightarrow> (Inl x, fs')
                     | Inr s \<Rightarrow>
                         (case build e ''drive'' ''v3'' c of
                            Inl x \<Rightarrow> (Inl x, fs')
                          | Inr d \<Rightarrow> (Inr (s, d), fs'))))))"

section \<open>The session and ensure\_authenticated\<close>

text \<open>
  \<^verbatim>\<open>SpreadsheetContext\<close>; the field \<^verbatim>\<open>_authenticated\<close> is \<open>authenticated\<close> here.
\<close>

record SpreadsheetContext =
  sheets_service :: "service option"
  drive_service :: "service option"
  folder_id :: "string option"
  authenticated :: bool

text \<open>
  Everything a call can change: the shared lifespan context, the local files, and the
  state of the remote platform (of any type \<open>'r\<close>).
\<close>

record 'r world =
  session :: SpreadsheetContext
  files :: file_system
  remote :: 'r

text \<open>\<^verbatim>\<open>spreadsheet_lifespan\<close>: the context the server starts with.\<close>

definition spreadsheet_lifespan :: "env \<Rightarrow> SpreadsheetContext" where
  "spreadsheet_lifespan e =
     \<lparr> sheets_service = None, drive_service = None,
       folder_id = (if DRIVE_FOLDER_ID e \<noteq> [] then Some (DRIVE_FOLDER_ID e) else None),
       authenticated = False \<rparr>"

definition ensure_authenticated ::
    "env \<Rightarrow> 'r world \<Rightarrow> (exn + SpreadsheetContext) \<times> 'r world" where
  "ensure_authenticated e w =
     (if \<not> authenticated (session w)
      then (case authenticate_google_services e (files w) of
              (Inl x, fs) \<Rightarrow>
                (Inl (raise_error (''Authentication failed: '' @ exn_str x)), w\<lparr>files := fs\<rparr>)
            | (Inr (s, d), fs) \<Rightarrow>
                (Inr ((session w)\<lparr>sheets_service := Some s, drive_service := Some d,
                                  authenticated := True\<rparr>),
                 w\<lparr>session := (session w)\<lparr>sheets_service := Some s, drive_service := Some d,
                                            authenticated := True\<rparr>,
                   files := fs\<rparr>))
      else (Inr (session w), w))"

definition get_spreadsheet_id :: "env \<Rightarrow> string option \<Rightarrow> exn + string" where
  "get_spreadsheet_id e spreadsheet_id =
     (case spreadsheet_id of
        None \<Rightarrow>
          (if (case DEFAULT_SPREADSHEET_ID e of None \<Rightarrow> [] | Some s \<Rightarrow> s) = []
           then Inl (raise_error ''spreadsheet_id is required. Either provide it as a parameter or set DEFAULT_SPREADSHEET_ID environment variable.'')
           else Inr (case DEFAULT_SPREADSHEET_ID e of None \<Rightarrow> [] | Some s \<Rightarrow> s))
      | Some s \<Rightarrow> Inr s)"

section \<open>Remote calls\<close>

text \<open>
  One constructor for each request of the Sheets and Drive clients that the handlers
  below \<^verbatim>\<open>execute()\<close>, with the keyword arguments of the source in its order.
\<close>

datatype request =
    Spreadsheets_get string "string list option" "bool option" "string option"
  | Spreadsheets_create json string
  | Spreadsheets_batchUpdate string json
  | Sheets_copyTo string json json
  | Values_get string string "string option"
  | Values_clear string string json
  | Files_get json string
  | Files_update json string string string
  | Permissions_create string json bool string

text \<open>
  The remote platform: from its state, the handle and the request, the response or
  the exception that \<^verbatim>\<open>execute()\<close> raises, and its new state.
\<close>

type_synonym 'r api = "'r \<Rightarrow> service \<Rightarrow> request \<Rightarrow> (exn + json) \<times> 'r"

definition execute :: "'r api \<Rightarrow> service option \<Rightarrow> request \<Rightarrow> 'r world \<Rightarrow> (exn + json) \<times> 'r world" where
  "execute api svc req w =
     (case svc of
        None \<Rightarrow> (Inl (raise_error ''AttributeError: NoneType object has no attribute''), w)
      | Some s \<Rightarrow> (case api (remote w) s req of (res, r') \<Rightarrow> (res, w\<lparr>remote := r'\<rparr>)))"

section \<open>Handlers that address a range\<close>

text \<open>The parameter \<^verbatim>\<open>range\<close> of the source is \<open>range'\<close> here.\<close>

definition get_sheet_data ::
    "env \<Rightarrow> 'r api \<Rightarrow> string \<Rightarrow> string option \<Rightarrow> string option \<Rightarrow> 'r world \<Rightarrow> (exn + json) \<times> 'r world" where
  "get_sheet_data e api sheet spreadsheet_id range' w =
     (case get_spreadsheet_id e spreadsheet_id of
        Inl x \<Rightarrow> (Inl x, w)
      | Inr sid \<Rightarrow>
          (case ensure_authenticated e w of
             (Inl x, w1) \<Rightarrow> (Inl x, w1)
           | (Inr lifespan_context, w1) \<Rightarrow>
               (let full_range = (if truthy_str range' then sheet @ ''!'' @ the range' else sheet)
                in execute api (sheets_service lifespan_context)
                     (Spreadsheets_get sid (Some [full_range]) (Some True) None) w1)))"

definition get_sheet_formulas ::
    "env \<Rightarrow> 'r api \<Rightarrow> string \<Rightarrow> string option \<Rightarrow> string option \<Rightarrow> 'r world \<Rightarrow> (exn + json) \<times> 'r world" where
  "get_sheet_formulas e api sheet spreadsheet_id range' w =
     (case get_spreadsheet_id e spreadsheet_id of
        Inl x \<Rightarrow> (Inl x, w)
      | Inr sid \<Rightarrow>
          (case ensure_authenticated e w of
             (Inl x, w1) \<Rightarrow> (Inl x, w1)
           | (Inr lifespan_context, w1) \<Rightarrow>
               (let full_range = (if truthy_str range' then sheet @ ''!'' @ the range' else sheet)
                in (case execute api (sheets_service lifespan_context)
                          (Values_get sid full_range (Some ''FORMULA'')) w1 of
                      (Inl x, w2) \<Rightarrow> (Inl x, w2)
                    | (Inr result, w2) \<Rightarrow> (py_get result ''values'' (JList []), w2)))))"

definition clear_sheet_data ::
    "env \<Rightarrow> 'r api \<Rightarrow> string \<Rightarrow> string option \<Rightarrow> string option \<Rightarrow> 'r world \<Rightarrow> (exn + json) \<times> 'r world" where
  "clear_sheet_data e api sheet spreadsheet_id range' w =
     (case get_spreadsheet_id e spreadsheet_id of
        Inl x \<Rightarrow> (Inl x, w)
      | Inr sid \<Rightarrow>
          (case ensure_authenticated e w of
             (Inl x, w1) \<Rightarrow> (Inl x, w1)
           | (Inr lifespan_context, w1) \<Rightarrow>
               (let full_range = (if truthy_str range' then sheet @ ''!'' @ the range' else sheet)
                in execute api (sheets_service lifespan_context)
                     (Values_clear sid full_range (JDict [])) w1)))"

section \<open>Handlers that look a sheet up by name\<close>

definition quote :: "string \<Rightarrow> string" where
  "quote s = [CHR 0x27] @ s @ [CHR 0x27]"

text \<open>
  The loop of add\_rows (lines 358-361), repeated word for word in add\_columns,
  copy\_sheet, rename\_sheet and delete\_sheet: \<^verbatim>\<open>sheet_id\<close> stays \<^verbatim>\<open>None\<close> (\<open>JNull\<close>)
  unless a sheet has the title, and the loop stops at the first that has.
\<close>

fun find_sheet_id :: "json list \<Rightarrow> string \<Rightarrow> exn + json" where
  "find_sheet_id [] sheet = Inr JNull"
| "find_sheet_id (s # ss) sheet =
     (case subscript s ''properties'' of
        Inl x \<Rightarrow> Inl x
      | Inr p \<Rightarrow>
          (case subscript p ''title'' of
             Inl x \<Rightarrow> Inl x
           | Inr t \<Rightarrow>
               if t = JStr sheet then subscript p ''sheetId''
               else find_sheet_id ss sheet))"

text \<open>\<^verbatim>\<open>for s in spreadsheet['sheets']: ...\<close>\<close>

definition lookup_sheet_id :: "json \<Rightarrow> string \<Rightarrow> exn + json" where
  "lookup_sheet_id spreadsheet sheet =
     (case subscript spreadsheet ''sheets'' of
        Inl x \<Rightarrow> Inl x
      | Inr v \<Rightarrow> (case py_iter v of Inl x \<Rightarrow> Inl x | Inr ss \<Rightarrow> find_sheet_id ss sheet))"

definition sheet_not_found :: "string \<Rightarrow> json" where
  "sheet_not_found sheet = JDict [(''error'', JStr (''Sheet '' @ quote sheet @ '' not found''))]"

text \<open>
  The request body of add\_rows (lines 367-381) and of add\_columns (lines 467-481),
  which differ in the dimension only.
\<close>

definition insert_dimension_body :: "string \<Rightarrow> json \<Rightarrow> int \<Rightarrow> int option \<Rightarrow> json" where
  "insert_dimension_body dimension sheet_id count start =
     JDict [(''requests'', JList [
       JDict [(''insertDimension'', JDict [
         (''range'', JDict [
            (''sheetId'', sheet_id),
            (''dimension'', JStr dimension),
            (''startIndex'', JInt (if start \<noteq> None then the start else 0)),
            (''endIndex'', JInt ((if start \<noteq> None then the start else 0) + count))]),
         (''inheritFromBefore'', JBool (start \<noteq> None \<and> the start > 0))])]])]"

definition add_rows ::
    "env \<Rightarrow> 'r api \<Rightarrow> string \<Rightarrow> int \<Rightarrow> string option \<Rightarrow> int option \<Rightarrow> 'r world \<Rightarrow> (exn + json) \<times> 'r world" where
  "add_rows e api sheet count spreadsheet_id start_row w =
     (case get_spreadsheet_id e spreadsheet_id of
        Inl x \<Rightarrow> (Inl x, w)
      | Inr sid \<Rightarrow>
          (case ensure_authenticated e w of
             (Inl x, w1) \<Rightarrow> (Inl x, w1)
           | (Inr lifespan_context, w1) \<Rightarrow>
               (case execute api (sheets_service lifespan_context)
                       (Spreadsheets_get sid None None None) w1 of
                  (Inl x, w2) \<Rightarrow> (Inl x, w2)
                | (Inr spreadsheet, w2) \<Rightarrow>
                    (case lookup_sheet_id spreadsheet sheet of
                       Inl x \<Rightarrow> (Inl x, w2)
                     | Inr sheet_id \<Rightarrow>
                         if sheet_id = JNull then (Inr (sheet_not_found sheet), w2)
                         else execute api (sheets_service lifespan_context)
                                (Spreadsheets_batchUpdate sid
                                   (insert_dimension_body ''ROWS'' sheet_id count start_row)) w2))))"

definition add_columns ::
    "env \<Rightarrow> 'r api \<Rightarrow> string \<Rightarrow> int \<Rightarrow> string option \<Rightarrow> int option \<Rightarrow> 'r world \<Rightarrow> (exn + json) \<times> 'r world" where
  "add_columns e api sheet count spreadsheet_id start_column w =
     (case get_spreadsheet_id e spreadsheet_id of
        Inl x \<Rightarrow> (Inl x, w)
      | Inr sid \<Rightarrow>
          (case ensure_authenticated e w of
             (Inl x, w1) \<Rightarrow> (Inl x, w1)
           | (Inr lifespan_context, w1) \<Rightarrow>
               (case execute api (sheets_service lifespan_context)
                       (Spreadsheets_get sid None None None) w1 of
                  (Inl x, w2) \<Rightarrow> (Inl x, w2)
                | (Inr spreadsheet, w2) \<Rightarrow>
                    (case lookup_sheet_id spreadsheet sheet of
                       Inl x \<Rightarrow> (Inl x, w2)
                     | Inr sheet_id \<Rightarrow>
                         if sheet_id = JNull then (Inr (sheet_not_found sheet), w2)
                         else execute api (sheets_service lifespan_context)
                                (Spreadsheets_batchUpdate sid
                                   (insert_dimension_body ''COLUMNS'' sheet_id count start_column)) w2))))"

definition delete_sheet ::
    "env \<Rightarrow> 'r api \<Rightarrow> string \<Rightarrow> string option \<Rightarrow> 'r world \<Rightarrow> (exn + json) \<times> 'r world" where
  "delete_sheet e api sheet spreadsheet_id w =
     (case get_spreadsheet_id e spreadsheet_id of
        Inl x \<Rightarrow> (Inl x, w)
      | Inr sid \<Rightarrow>
          (case ensure_authenticated e w of
             (Inl x, w1) \<Rightarrow> (Inl x, w1)
           | (Inr lifespan_context, w1) \<Rightarrow>
               (case execute api (sheets_service lifespan_context)
                       (Spreadsheets_get sid None None None) w1 of
                  (Inl x, w2) \<Rightarrow> (Inl x, w2)
                | (Inr spreadsheet, w2) \<Rightarrow>
                    (case lookup_sheet_id spreadsheet sheet of
                       Inl x \<Rightarrow> (Inl x, w2)
                     | Inr sheet_id \<Rightarrow>
                         if sheet_id = JNull then (Inr (sheet_not_found sheet), w2)
                         else execute api (sheets_service lifespan_context)
                                (Spreadsheets_batchUpdate sid
                                   (JDict [(''requests'', JList [
                                      JDict [(''deleteSheet'', JDict [(''sheetId'', sheet_id)])]])])) w2))))"

text \<open>rename\_sheet takes the spreadsheet id as it is given (no default).\<close>

definition rename_sheet ::
    "env \<Rightarrow> 'r api \<Rightarrow> string \<Rightarrow> string \<Rightarrow> string \<Rightarrow> 'r world \<Rightarrow> (exn + json) \<times> 'r world" where
  "rename_sheet e api spreadsheet sheet new_name w =
     (case ensure_authenticated e w of
        (Inl x, w1) \<Rightarrow> (Inl x, w1)
      | (Inr lifespan_context, w1) \<Rightarrow>
          (case execute api (sheets_service lifespan_context)
                  (Spreadsheets_get spreadsheet None None None) w1 of
             (Inl x, w2) \<Rightarrow> (Inl x, w2)
           | (Inr spreadsheet_data, w2) \<Rightarrow>
               (case lookup_sheet_id spreadsheet_data sheet of
                  Inl x \<Rightarrow> (Inl x, w2)
                | Inr sheet_id \<Rightarrow>
                    if sheet_id = JNull then (Inr (sheet_not_found sheet), w2)
                    else execute api (sheets_service lifespan_context)
                           (Spreadsheets_batchUpdate spreadsheet
                              (JDict [(''requests'', JList [
                                 JDict [(''updateSheetProperties'', JDict [
                                   (''properties'', JDict [(''sheetId'', sheet_id),
                                                          (''title'', JStr new_name)]),
                                   (''fields'', JStr ''title'')])]])])) w2)))"

text \<open>\<^verbatim>\<open>k in v\<close> for a string \<open>k\<close>.\<close>

definition py_in :: "string \<Rightarrow> json \<Rightarrow> exn + bool" where
  "py_in k v = (case v of
       JDict kvs \<Rightarrow> Inr (map_of kvs k \<noteq> None)
     | JList xs \<Rightarrow> Inr (JStr k \<in> set xs)
     | JStr s \<Rightarrow> Inr (sublist k s)
     | _ \<Rightarrow> Inl (raise_error ''TypeError: argument is not iterable''))"

definition copy_sheet ::
    "env \<Rightarrow> 'r api \<Rightarrow> string \<Rightarrow> string \<Rightarrow> string \<Rightarrow> string \<Rightarrow> 'r world \<Rightarrow> (exn + json) \<times> 'r world" where
  "copy_sheet e api src_spreadsheet src_sheet dst_spreadsheet dst_sheet w =
     (case ensure_authenticated e w of
        (Inl x, w1) \<Rightarrow> (Inl x, w1)
      | (Inr lifespan_context, w1) \<Rightarrow>
          (case execute api (sheets_service lifespan_context)
                  (Spreadsheets_get src_spreadsheet None None None) w1 of
             (Inl x, w2) \<Rightarrow> (Inl x, w2)
           | (Inr src, w2) \<Rightarrow>
               (case lookup_sheet_id src src_sheet of
                  Inl x \<Rightarrow> (Inl x, w2)
                | Inr src_sheet_id \<Rightarrow>
                    if src_sheet_id = JNull
                    then (Inr (JDict [(''error'',
                             JStr (''Source sheet '' @ quote src_sheet @ '' not found''))]), w2)
                    else
                      (case execute api (sheets_service lifespan_context)
                              (Sheets_copyTo src_spreadsheet src_sheet_id
                                 (JDict [(''destinationSpreadsheetId'', JStr dst_spreadsheet)])) w2 of
                         (Inl x, w3) \<Rightarrow> (Inl x, w3)
                       | (Inr copy_result, w3) \<Rightarrow>
                           (case py_in ''title'' copy_result of
                              Inl x \<Rightarrow> (Inl x, w3)
                            | Inr False \<Rightarrow> (Inr (JDict [(''copy'', copy_result)]), w3)
                            | Inr True \<Rightarrow>
                                (case subscript copy_result ''title'' of
                                   Inl x \<Rightarrow> (Inl x, w3)
                                 | Inr t \<Rightarrow>
                                     if t = JStr dst_sheet
                                     then (Inr (JDict [(''copy'', copy_result)]), w3)
                                     else
                                       (case subscript copy_result ''sheetId'' of
                                          Inl x \<Rightarrow> (Inl x, w3)
                                        | Inr copy_sheet_id \<Rightarrow>
                                            (case execute api (sheets_service lifespan_context)
                                                    (Spreadsheets_batchUpdate dst_spreadsheet
                                                      (JDict [(''requests'', JList [
                                                         JDict [(''updateSheetProperties'', JDict [
                                                           (''properties'', JDict [
                                                              (''sheetId'', copy_sheet_id),
                                                              (''title'', JStr dst_sheet)]),
                                                           (''fields'', JStr ''title'')])]])])) w3 of
                                               (Inl x, w4) \<Rightarrow> (Inl x, w4)
                                             | (Inr rename_result, w4) \<Rightarrow>
                                                 (Inr (JDict [(''copy'', copy_result),
                                                              (''rename'', rename_result)]), w4)))))))))"

text \<open>
  The loop of get\_sheet\_properties (lines 1133-1135): the properties of the first
  sheet that has the title, or nothing.
\<close>

fun find_properties :: "json list \<Rightarrow> string \<Rightarrow> exn + json option" where
  "find_properties [] sheet = Inr None"
| "find_properties (s # ss) sheet =
     (case subscript s ''properties'' of
        Inl x \<Rightarrow> Inl x
      | Inr p \<Rightarrow>
          (case subscript p ''title'' of
             Inl x \<Rightarrow> Inl x
           | Inr t \<Rightarrow> if t = JStr sheet then Inr (Some p) else find_properties ss sheet))"

definition get_sheet_properties ::
    "env \<Rightarrow> 'r api \<Rightarrow> string \<Rightarrow> string option \<Rightarrow> 'r world \<Rightarrow> (exn + json) \<times> 'r world" where
  "get_sheet_properties e api sheet spreadsheet_id w =
     (case get_spreadsheet_id e spreadsheet_id of
        Inl x \<Rightarrow> (Inl x, w)
      | Inr sid \<Rightarrow>
          (case ensure_authenticated e w of
             (Inl x, w1) \<Rightarrow> (Inl x, w1)
           | (Inr lifespan_context, w1) \<Rightarrow>
               (case execute api (sheets_service lifespan_context)
                       (Spreadsheets_get sid (Some [sheet]) None (Some ''sheets(properties,data)'')) w1 of
                  (Inl x, w2) \<Rightarrow> (Inl x, w2)
                | (Inr spreadsheet, w2) \<Rightarrow>
                    (case py_get spreadsheet ''sheets'' (JList []) of
                       Inl x \<Rightarrow> (Inl x, w2)
                     | Inr v \<Rightarrow>
                         (case py_iter v of
                            Inl x \<Rightarrow> (Inl x, w2)
                          | Inr ss \<Rightarrow>
                              (case find_properties ss sheet of
                                 Inl x \<Rightarrow> (Inl x, w2)
                               | Inr (Some p) \<Rightarrow> (Inr p, w2)
                               | Inr None \<Rightarrow> (Inr (sheet_not_found sheet), w2)))))))"

section \<open>get\_multiple\_sheet\_data\<close>

text \<open>
  A query or a recipient is a \<^verbatim>\<open>Dict[str, str]\<close>; \<open>query_entry\<close> is the same dict
  among JSON-like values, as \<^verbatim>\<open>{**query}\<close> copies it.
\<close>

type_synonym str_dict = "(string \<times> string) list"

definition query_entry :: "str_dict \<Rightarrow> (string \<times> json) list" where
  "query_entry query = map (\<lambda>kv. (fst kv, JStr (snd kv))) query"

definition missing_keys :: string where
  "missing_keys = ''Missing required keys (spreadsheet_id, sheet, range)''"

text \<open>One pass through the loop body (lines 667-690): the entry appended to \<^verbatim>\<open>results\<close>.\<close>

definition fetch_query :: "'r api \<Rightarrow> service option \<Rightarrow> str_dict \<Rightarrow> 'r world \<Rightarrow> json \<times> 'r world" where
  "fetch_query api sheets query w =
     (if \<not> (truthy_str (map_of query ''spreadsheet_id'') \<and> truthy_str (map_of query ''sheet'')
             \<and> truthy_str (map_of query ''range''))
      then (JDict (dict_set ''error'' (JStr missing_keys) (query_entry query)), w)
      else
        (case execute api sheets
                (Values_get (the (map_of query ''spreadsheet_id''))
                   (the (map_of query ''sheet'') @ ''!'' @ the (map_of query ''range'')) None) w of
           (Inl x, w') \<Rightarrow>
             (JDict (dict_set ''error'' (JStr (exn_str x)) (query_entry query)), w')
         | (Inr result, w') \<Rightarrow>
             (case py_get result ''values'' (JList []) of
                Inl x \<Rightarrow> (JDict (dict_set ''error'' (JStr (exn_str x)) (query_entry query)), w')
              | Inr values \<Rightarrow> (JDict (dict_set ''data'' values (query_entry query)), w'))))"

fun fetch_queries ::
    "'r api \<Rightarrow> service option \<Rightarrow> str_dict list \<Rightarrow> json list \<Rightarrow> 'r world \<Rightarrow> json list \<times> 'r world" where
  "fetch_queries api sheets [] results w = (results, w)"
| "fetch_queries api sheets (query # queries) results w =
     (case fetch_query api sheets query w of
        (entry, w') \<Rightarrow> fetch_queries api sheets queries (results @ [entry]) w')"

definition get_multiple_sheet_data ::
    "env \<Rightarrow> 'r api \<Rightarrow> str_dict list \<Rightarrow> 'r world \<Rightarrow> (exn + json list) \<times> 'r world" where
  "get_multiple_sheet_data e api queries w =
     (case ensure_authenticated e w of
        (Inl x, w1) \<Rightarrow> (Inl x, w1)
      | (Inr lifespan_context, w1) \<Rightarrow>
          (case fetch_queries api (sheets_service lifespan_context) queries [] w1 of
             (results, w2) \<Rightarrow> (Inr results, w2)))"

section \<open>get\_multiple\_spreadsheet\_summary\<close>

text \<open>What an f-string prints for a value: a string as it is.\<close>

definition format_value :: "env \<Rightarrow> json \<Rightarrow> string" where
  "format_value e v = (case v of JStr s \<Rightarrow> s | _ \<Rightarrow> py_str e v)"

text \<open>\<^verbatim>\<open>values[0]\<close> on a value that is truthy.\<close>

definition first_item :: "json \<Rightarrow> exn + json" where
  "first_item v = (case v of
       JList xs \<Rightarrow> (case xs of [] \<Rightarrow> Inl (raise_error ''IndexError: list index out of range'')
                               | x # _ \<Rightarrow> Inr x)
     | JStr s \<Rightarrow> (case s of [] \<Rightarrow> Inl (raise_error ''IndexError: string index out of range'')
                             | c # _ \<Rightarrow> Inr (JStr [c]))
     | JDict kvs \<Rightarrow> Inl (raise_error ''KeyError: 0'')
     | _ \<Rightarrow> Inl (raise_error ''TypeError: object is not subscriptable''))"

text \<open>
  \<^verbatim>\<open>values[1:max_row]\<close> when \<^verbatim>\<open>len(values) > 1\<close>, on a list or a string (the kinds that
  \<open>first_item\<close> accepts); \<^verbatim>\<open>max_row\<close> is at least 1.
\<close>

definition rows_after_header :: "json \<Rightarrow> int \<Rightarrow> json" where
  "rows_after_header v max_row = (case v of
       JList xs \<Rightarrow> JList (if length xs > 1 then drop 1 (take (nat max_row) xs) else [])
     | JStr s \<Rightarrow> (if length s > 1 then JStr (drop 1 (take (nat max_row) s)) else JList [])
     | _ \<Rightarrow> JList [])"

definition sheet_summary_dict :: "json \<Rightarrow> json \<Rightarrow> json \<Rightarrow> json \<Rightarrow> json \<Rightarrow> json" where
  "sheet_summary_dict title sheet_id headers first_rows err =
     JDict [(''title'', title), (''sheet_id'', sheet_id), (''headers'', headers),
            (''first_rows'', first_rows), (''error'', err)]"

text \<open>
  One pass through the inner loop body (lines 733-773). \<open>Inl\<close> is an exception that
  leaves the body (the two \<^verbatim>\<open>.get\<close> chains stand outside the inner \<^verbatim>\<open>try\<close>); the inner
  \<^verbatim>\<open>try\<close> turns every other exception into the sheet's \<^verbatim>\<open>error\<close>.
\<close>

definition summarize_sheet ::
    "env \<Rightarrow> 'r api \<Rightarrow> service option \<Rightarrow> string \<Rightarrow> int \<Rightarrow> json \<Rightarrow> 'r world \<Rightarrow> (exn + json) \<times> 'r world" where
  "summarize_sheet e api sheets spreadsheet_id rows_to_fetch sheet w =
     (case py_get sheet ''properties'' (JDict []) of
        Inl x \<Rightarrow> (Inl x, w)
      | Inr props \<Rightarrow>
          (case py_get props ''title'' JNull of
             Inl x \<Rightarrow> (Inl x, w)
           | Inr sheet_title \<Rightarrow>
               (case py_get props ''sheetId'' JNull of
                  Inl x \<Rightarrow> (Inl x, w)
                | Inr sheet_id \<Rightarrow>
                    if \<not> truthy sheet_title
                    then (Inr (sheet_summary_dict sheet_title sheet_id (JList []) (JList [])
                                 (JStr ''Sheet title not found'')), w)
                    else
                      (case execute api sheets
                              (Values_get spreadsheet_id
                                 (format_value e sheet_title @ ''!A1:''
                                    @ py_str e (JInt (max 1 rows_to_fetch))) None) w of
                         (Inl x, w') \<Rightarrow>
                           (Inr (sheet_summary_dict sheet_title sheet_id (JList []) (JList [])
                                   (JStr (''Error fetching data for sheet ''
                                          @ format_value e sheet_title @ '': '' @ exn_str x))), w')
                       | (Inr result, w') \<Rightarrow>
                           (case py_get result ''values'' (JList []) of
                              Inl x \<Rightarrow>
                                (Inr (sheet_summary_dict sheet_title sheet_id (JList []) (JList [])
                                        (JStr (''Error fetching data for sheet ''
                                               @ format_value e sheet_title @ '': '' @ exn_str x))), w')
                            | Inr values \<Rightarrow>
                                if truthy values
                                then (case first_item values of
                                        Inl x \<Rightarrow>
                                          (Inr (sheet_summary_dict sheet_title sheet_id (JList [])
                                                  (JList [])
                                                  (JStr (''Error fetching data for sheet ''
                                                         @ format_value e sheet_title @ '': ''
                                                         @ exn_str x))), w')
                                      | Inr headers \<Rightarrow>
                                          (Inr (sheet_summary_dict sheet_title sheet_id headers
                                                  (rows_after_header values (max 1 rows_to_fetch))
                                                  JNull), w'))
                                else (Inr (sheet_summary_dict sheet_title sheet_id (JList [])
                                             (JList []) JNull), w'))))))"

fun summarize_sheets ::
    "env \<Rightarrow> 'r api \<Rightarrow> service option \<Rightarrow> string \<Rightarrow> int \<Rightarrow> json list \<Rightarrow> json list \<Rightarrow> 'r world
      \<Rightarrow> (exn + json list) \<times> 'r world" where
  "summarize_sheets e api sheets spreadsheet_id rows_to_fetch [] sheet_summaries w =
     (Inr sheet_summaries, w)"
| "summarize_sheets e api sheets spreadsheet_id rows_to_fetch (sheet # rest) sheet_summaries w =
     (case summarize_sheet e api sheets spreadsheet_id rows_to_fetch sheet w of
        (Inl x, w') \<Rightarrow> (Inl x, w')
      | (Inr sheet_summary, w') \<Rightarrow>
          summarize_sheets e api sheets spreadsheet_id rows_to_fetch rest
            (sheet_summaries @ [sheet_summary]) w')"

definition summary_dict :: "string \<Rightarrow> json \<Rightarrow> json list \<Rightarrow> json \<Rightarrow> json" where
  "summary_dict spreadsheet_id title sheets err =
     JDict [(''spreadsheet_id'', JStr spreadsheet_id), (''title'', title),
            (''sheets'', JList sheets), (''error'', err)]"

definition spreadsheet_error :: "string \<Rightarrow> exn \<Rightarrow> json" where
  "spreadsheet_error spreadsheet_id x =
     JStr (''Error fetching spreadsheet '' @ spreadsheet_id @ '': '' @ exn_str x)"

text \<open>
  One pass through the outer loop body (lines 716-780): the outer \<^verbatim>\<open>try\<close> catches every
  exception; the title assigned before the exception stays in the entry.
\<close>

definition summarize_spreadsheet ::
    "env \<Rightarrow> 'r api \<Rightarrow> service option \<Rightarrow> int \<Rightarrow> string \<Rightarrow> 'r world \<Rightarrow> json \<times> 'r world" where
  "summarize_spreadsheet e api sheets rows_to_fetch spreadsheet_id w =
     (case execute api sheets
             (Spreadsheets_get spreadsheet_id None None
                (Some ''properties.title,sheets(properties(title,sheetId))'')) w of
        (Inl x, w1) \<Rightarrow> (summary_dict spreadsheet_id JNull [] (spreadsheet_error spreadsheet_id x), w1)
      | (Inr spreadsheet, w1) \<Rightarrow>
          (case (case py_get spreadsheet ''properties'' (JDict []) of
                   Inl x \<Rightarrow> Inl x
                 | Inr props \<Rightarrow> py_get props ''title'' (JStr ''Unknown Title'')) of
             Inl x \<Rightarrow> (summary_dict spreadsheet_id JNull [] (spreadsheet_error spreadsheet_id x), w1)
           | Inr title \<Rightarrow>
               (case (case py_get spreadsheet ''sheets'' (JList []) of
                        Inl x \<Rightarrow> Inl x
                      | Inr v \<Rightarrow> py_iter v) of
                  Inl x \<Rightarrow>
                    (summary_dict spreadsheet_id title [] (spreadsheet_error spreadsheet_id x), w1)
                | Inr ss \<Rightarrow>
                    (case summarize_sheets e api sheets spreadsheet_id rows_to_fetch ss [] w1 of
                       (Inl x, w2) \<Rightarrow>
                         (summary_dict spreadsheet_id title []
                            (spreadsheet_error spreadsheet_id x), w2)
                     | (Inr sheet_summaries, w2) \<Rightarrow>
                         (summary_dict spreadsheet_id title sheet_summaries JNull, w2)))))"

fun summarize_spreadsheets ::
    "env \<Rightarrow> 'r api \<Rightarrow> service option \<Rightarrow> int \<Rightarrow> string list \<Rightarrow> json list \<Rightarrow> 'r world
      \<Rightarrow> json list \<times> 'r world" where
  "summarize_spreadsheets e api sheets rows_to_fetch [] summaries w = (summaries, w)"
| "summarize_spreadsheets e api sheets rows_to_fetch (spreadsheet_id # rest) summaries w =
     (case summarize_spreadsheet e api sheets rows_to_fetch spreadsheet_id w of
        (summary_data, w') \<Rightarrow>
          summarize_spreadsheets e api sheets rows_to_fetch rest (summaries @ [summary_data]) w')"

definition get_multiple_spreadsheet_summary ::
    "env \<Rightarrow> 'r api \<Rightarrow> string list \<Rightarrow> int \<Rightarrow> 'r world \<Rightarrow> (exn + json list) \<times> 'r world" where
  "get_multiple_spreadsheet_summary e api spreadsheet_ids rows_to_fetch w =
     (case ensure_authenticated e w of
        (Inl x, w1) \<Rightarrow> (Inl x, w1)
      | (Inr lifespan_context, w1) \<Rightarrow>
          (case summarize_spreadsheets e api (sheets_service lifespan_context) rows_to_fetch
                  spreadsheet_ids [] w1 of
             (summaries, w2) \<Rightarrow> (Inr summaries, w2)))"

section \<open>share\_spreadsheet\<close>

text \<open>
  Lines 1042-1048, inside the \<^verbatim>\<open>except Exception as e\<close> block: \<^verbatim>\<open>error_details\<close>, or
  the exception that leaves the block. Only \<^verbatim>\<open>json.JSONDecodeError\<close> is caught there.
\<close>

definition error_details :: "exn \<Rightarrow> exn + json" where
  "error_details x =
     (case exn_content x of
        None \<Rightarrow> Inr (JStr (exn_str x))
      | Some JSONDecodeError \<Rightarrow> Inr (JStr (exn_str x))
      | Some UnicodeDecodeError \<Rightarrow> Inl (raise_error ''UnicodeDecodeError'')
      | Some (Loaded error_content) \<Rightarrow>
          (case py_get error_content ''error'' (JDict []) of
             Inl y \<Rightarrow> Inl y
           | Inr err \<Rightarrow> py_get err ''message'' (JStr (exn_str x))))"

definition share_failure :: "env \<Rightarrow> string \<Rightarrow> exn \<Rightarrow> exn + json" where
  "share_failure e email_address x =
     (case error_details x of
        Inl y \<Rightarrow> Inl y
      | Inr details \<Rightarrow>
          Inr (JDict [(''email_address'', JStr email_address),
                      (''error'', JStr (''Failed to share: '' @ format_value e details))]))"

definition invalid_role :: "string \<Rightarrow> string" where
  "invalid_role role = ''Invalid role '' @ quote role @ ''. Must be '' @ quote ''reader''
     @ '', '' @ quote ''commenter'' @ '', or '' @ quote ''writer'' @ ''.''"

text \<open>What one pass through the loop body appends, and to which list.\<close>

datatype outcome = Success json | Failure json

text \<open>
  One pass through the loop body (lines 1005-1052). \<open>Inl\<close> is an exception that
  leaves the body, and with it the loop and the function.
\<close>

definition share_recipient ::
    "env \<Rightarrow> 'r api \<Rightarrow> service option \<Rightarrow> string \<Rightarrow> bool \<Rightarrow> str_dict \<Rightarrow> 'r world
      \<Rightarrow> (exn + outcome) \<times> 'r world" where
  "share_recipient e api drive spreadsheet_id send_notification recipient w =
     (if \<not> truthy_str (map_of recipient ''email_address'')
      then (Inr (Failure (JDict [(''email_address'', JNull),
                                 (''error'', JStr ''Missing email_address in recipient entry.'')])), w)
      else if (case map_of recipient ''role'' of None \<Rightarrow> ''writer'' | Some r \<Rightarrow> r)
                \<notin> set [''reader'', ''commenter'', ''writer'']
      then (Inr (Failure (JDict [(''email_address'', JStr (the (map_of recipient ''email_address''))),
                                 (''error'', JStr (invalid_role
                                    (case map_of recipient ''role'' of
                                       None \<Rightarrow> ''writer'' | Some r \<Rightarrow> r)))])), w)
      else
        (case execute api drive
                (Permissions_create spreadsheet_id
                   (JDict [(''type'', JStr ''user''),
                           (''role'', JStr (case map_of recipient ''role'' of
                                              None \<Rightarrow> ''writer'' | Some r \<Rightarrow> r)),
                           (''emailAddress'', JStr (the (map_of recipient ''email_address'')))])
                   send_notification ''id'') w of
           (Inr result, w') \<Rightarrow>
             (case py_get result ''id'' JNull of
                Inr permission_id \<Rightarrow>
                  (Inr (Success (JDict [(''email_address'', JStr (the (map_of recipient ''email_address''))),
                                        (''role'', JStr (case map_of recipient ''role'' of
                                                           None \<Rightarrow> ''writer'' | Some r \<Rightarrow> r)),
                                        (''permissionId'', permission_id)])), w')
              | Inl x \<Rightarrow>
                  (case share_failure e (the (map_of recipient ''email_address'')) x of
                     Inl y \<Rightarrow> (Inl y, w')
                   | Inr entry \<Rightarrow> (Inr (Failure entry), w')))
         | (Inl x, w') \<Rightarrow>
             (case share_failure e (the (map_of recipient ''email_address'')) x of
                Inl y \<Rightarrow> (Inl y, w')
              | Inr entry \<Rightarrow> (Inr (Failure entry), w'))))"

text \<open>The loop (lines 1004-1052) with its two accumulators.\<close>

fun share_recipients ::
    "env \<Rightarrow> 'r api \<Rightarrow> service option \<Rightarrow> string \<Rightarrow> bool \<Rightarrow> str_dict list \<Rightarrow> json list \<Rightarrow> json list
      \<Rightarrow> 'r world \<Rightarrow> (exn + json list \<times> json list) \<times> 'r world" where
  "share_recipients e api drive spreadsheet_id send_notification [] successes failures w =
     (Inr (successes, failures), w)"
| "share_recipients e api drive spreadsheet_id send_notification (recipient # rest) successes failures w =
     (case share_recipient e api drive spreadsheet_id send_notification recipient w of
        (Inl x, w') \<Rightarrow> (Inl x, w')
      | (Inr (Success entry), w') \<Rightarrow>
          share_recipients e api drive spreadsheet_id send_notification rest
            (successes @ [entry]) failures w'
      | (Inr (Failure entry), w') \<Rightarrow>
          share_recipients e api drive spreadsheet_id send_notification rest
            successes (failures @ [entry]) w')"

definition share_spreadsheet ::
    "env \<Rightarrow> 'r api \<Rightarrow> str_dict list \<Rightarrow> string option \<Rightarrow> bool \<Rightarrow> 'r world \<Rightarrow> (exn + json) \<times> 'r world" where
  "share_spreadsheet e api recipients spreadsheet_id send_notification w =
     (case get_spreadsheet_id e spreadsheet_id of
        Inl x \<Rightarrow> (Inl x, w)
      | Inr sid \<Rightarrow>
          (case ensure_authenticated e w of
             (Inl x, w1) \<Rightarrow> (Inl x, w1)
           | (Inr lifespan_context, w1) \<Rightarrow>
               (case share_recipients e api (drive_service lifespan_context) sid send_notification
                       recipients [] [] w1 of
                  (Inl x, w2) \<Rightarrow> (Inl x, w2)
                | (Inr (successes, failures), w2) \<Rightarrow>
                    (Inr (JDict [(''successes'', JList successes),
                                 (''failures'', JList failures)]), w2))))"

section \<open>create\_spreadsheet\<close>








section \<open>Example configurations\<close>

text \<open>
  A deployment with no inline blob, no service-account file and no stored token, in
  which the interactive flow fails and Application Default Credentials exist.
\<close>

definition example_creds :: creds where
  "example_creds = \<lparr> account = ''adc'', valid = True, expired = False, refresh_token = None \<rparr>"

definition example_env :: env where
  "example_env =
     \<lparr> CREDENTIALS_CONFIG = None,
       TOKEN_PATH = ''token.json'',
       CREDENTIALS_PATH = ''credentials.json'',
       SERVICE_ACCOUNT_PATH = ''service_account.json'',
       DRIVE_FOLDER_ID = [],
       DEFAULT_SPREADSHEET_ID = None,
       from_service_account_info = (\<lambda>blob. Inl (raise_error ''Expecting value'')),
       from_service_account_file = (\<lambda>contents. Inl (raise_error ''Expecting value'')),
       from_authorized_user_info = (\<lambda>contents. Inl (raise_error ''Expecting value'')),
       refresh = (\<lambda>c. Inl (raise_error ''invalid_grant'')),
       run_local_server = (\<lambda>secrets. Inl (raise_error ''No such file: credentials.json'')),
       to_json = (\<lambda>c. ''{}''),
       writable = (\<lambda>path. True),
       auth_default = Inr example_creds,
       build_error = (\<lambda>name version c. None),
       py_str = (\<lambda>v. (case v of JInt i \<Rightarrow> (if i = 5 then ''5'' else ''1'') | _ \<Rightarrow> ''None'')) \<rparr>"

text \<open>The same deployment with nothing for Application Default Credentials to find.\<close>

definition no_adc_env :: env where
  "no_adc_env = example_env\<lparr>auth_default := Inl (raise_error ''DefaultCredentialsError'')\<rparr>"















definition no_files :: file_system where
  "no_files = (\<lambda>path. None)"

definition authed_session :: SpreadsheetContext where
  "authed_session =
     \<lparr> sheets_service = Some (Service ''sheets'' ''v4'' example_creds),
       drive_service = Some (Service ''drive'' ''v3'' example_creds),
       folder_id = None,
       authenticated = True \<rparr>"

text \<open>Worlds whose remote state is the number of requests executed so far.\<close>

definition fresh_world :: "nat world" where
  "fresh_world = \<lparr> session = spreadsheet_lifespan example_env, files = no_files, remote = 0 \<rparr>"

definition authed_world :: "nat world" where
  "authed_world = \<lparr> session = authed_session, files = no_files, remote = 0 \<rparr>"


text \<open>A remote platform that answers every range request with the address it was sent.\<close>

definition echo_api :: "nat api" where
  "echo_api n s req =
     (case req of
        Spreadsheets_get sid ranges grid flds \<Rightarrow>
          (case ranges of Some [a] \<Rightarrow> Inr (JStr a) | _ \<Rightarrow> Inr JNull)
      | Values_get sid a render \<Rightarrow> Inr (JDict [(''values'', JStr a)])
      | Values_clear sid a body \<Rightarrow> Inr (JStr a)
      | _ \<Rightarrow> Inr JNull,
      Suc n)"

text \<open>
  A remote platform holding one spreadsheet with the single sheet \<^verbatim>\<open>Sheet1\<close>. A batch
  update answers with the body it was sent. Sharing succeeds except for two addresses:
  for \<^verbatim>\<open>denied@example.com\<close> the error body is the usual
  \<^verbatim>\<open>{"error": {"message": ...}}\<close>, for \<^verbatim>\<open>odd@example.com\<close> it is \<^verbatim>\<open>{"error": "forbidden"}\<close>.
  Reading the parents of a file fails.
\<close>

definition book :: json where
  "book = JDict [(''spreadsheetId'', JStr ''book1''),
                 (''properties'', JDict [(''title'', JStr ''Book'')]),
                 (''sheets'', JList [JDict [(''properties'',
                     JDict [(''title'', JStr ''Sheet1''), (''sheetId'', JInt 0)])]])]"

definition book_api :: "nat api" where
  "book_api n s req =
     (case req of
        Spreadsheets_get sid ranges grid flds \<Rightarrow>
          (if sid = ''missing'' then Inl (raise_error ''HttpError 404'') else Inr book)
      | Spreadsheets_create body flds \<Rightarrow> Inr book
      | Spreadsheets_batchUpdate sid body \<Rightarrow> Inr body
      | Values_get sid a render \<Rightarrow>
          (if sid = ''missing'' then Inl (raise_error ''HttpError 404'')
           else Inr (JDict [(''values'', JList [JList [JStr ''name'']])]))
      | Permissions_create sid body notify flds \<Rightarrow>
          (if subscript body ''emailAddress'' = Inr (JStr ''denied@example.com'')
           then Inl (Exn ''HttpError 403''
                  (Some (Loaded (JDict [(''error'', JDict [(''message'', JStr ''denied'')])]))))
           else if subscript body ''emailAddress'' = Inr (JStr ''odd@example.com'')
           then Inl (Exn ''HttpError 403'' (Some (Loaded (JDict [(''error'', JStr ''forbidden'')]))))
           else Inr (JDict [(''id'', JStr ''perm1'')]))
      | Files_get file_id flds \<Rightarrow> Inl (raise_error ''HttpError 404'')
      | _ \<Rightarrow> Inl (raise_error ''HttpError 400''),
      Suc n)"

text \<open>
  The same platform, except that it rejects a request for ranges that name no sheet of
  the spreadsheet, and one on which the parents of a file can be read but the file
  cannot be moved.
\<close>

definition strict_api :: "nat api" where
  "strict_api n s req =
     (case req of
        Spreadsheets_get sid ranges grid flds \<Rightarrow>
          (if ranges = None \<or> ranges = Some [''Sheet1''] then (Inr book, Suc n)
           else (Inl (raise_error ''HttpError 400: Unable to parse range''), Suc n))
      | _ \<Rightarrow> book_api n s req)"



text \<open>Queries and recipients for the examples.\<close>

definition complete_query :: str_dict where
  "complete_query = [(''spreadsheet_id'', ''book1''), (''sheet'', ''Sheet1''), (''range'', ''A1:B2'')]"

definition incomplete_query :: str_dict where
  "incomplete_query = [(''sheet'', ''Sheet1''), (''range'', ''A1:B2'')]"

definition labelled_query :: str_dict where
  "labelled_query = [(''spreadsheet_id'', ''book1''), (''sheet'', ''Sheet1''), (''range'', ''A1:B2''),
                     (''error'', ''none so far'')]"

definition ann :: str_dict where
  "ann = [(''email_address'', ''ann@example.com''), (''role'', ''reader'')]"

definition bob :: str_dict where
  "bob = [(''email_address'', ''bob@example.com'')]"

definition nobody :: str_dict where
  "nobody = [(''role'', ''writer'')]"

definition denied :: str_dict where
  "denied = [(''email_address'', ''denied@example.com'')]"

definition odd :: str_dict where
  "odd = [(''email_address'', ''odd@example.com'')]"


section \<open>Reading a request body\<close>

text \<open>A path into a JSON-like value: dict keys and list positions.\<close>

datatype step = Key string | Index nat

fun json_at :: "json \<Rightarrow> step list \<Rightarrow> json option" where
  "json_at v [] = Some v"
| "json_at v (Key k # path) =
     (case v of
        JDict kvs \<Rightarrow> (case map_of kvs k of None \<Rightarrow> None | Some u \<Rightarrow> json_at u path)
      | _ \<Rightarrow> None)"
| "json_at v (Index i # path) =
     (case v of
        JList xs \<Rightarrow> (if i < length xs then json_at (xs ! i) path else None)
      | _ \<Rightarrow> None)"

text \<open>Where the inserted range and the inheritance flag stand in a batch-update body.\<close>

definition inserted_range :: "string \<Rightarrow> step list" where
  "inserted_range field = [Key ''requests'', Index 0, Key ''insertDimension'', Key ''range'', Key field]"

definition inherit_flag :: "step list" where
  "inherit_flag = [Key ''requests'', Index 0, Key ''insertDimension'', Key ''inheritFromBefore'']"

text \<open>Every sheet of the list has a title, and none has the title \<open>sheet\<close>.\<close>

definition absent_from :: "string \<Rightarrow> json list \<Rightarrow> bool" where
  "absent_from sheet ss =
     list_all (\<lambda>s. case subscript s ''properties'' of
                      Inl x \<Rightarrow> False
                    | Inr p \<Rightarrow> (case subscript p ''title'' of
                                 Inl x \<Rightarrow> False
                               | Inr t \<Rightarrow> t \<noteq> JStr sheet)) ss"



section \<open>Evaluating the example configurations\<close>

lemma auth_example:
  "authenticate_google_services example_env no_files =
     (Inr (Service ''sheets'' ''v4'' example_creds, Service ''drive'' ''v3'' example_creds), no_files)"
  by (simp add: authenticate_google_services_def inline_config_def service_account_file_def
      oauth_def installed_app_flow_def application_default_def build_def example_env_def
      no_files_def truthy_str_def)

lemma auth_no_adc:
  "authenticate_google_services no_adc_env no_files = (Inl all_failed, no_files)"
  by (simp add: authenticate_google_services_def inline_config_def service_account_file_def
      oauth_def installed_app_flow_def application_default_def build_def example_env_def
      no_adc_env_def no_files_def truthy_str_def)

lemma ensure_authed_world:
  "ensure_authenticated e authed_world = (Inr authed_session, authed_world)"
  by (simp add: ensure_authenticated_def authed_world_def authed_session_def)


lemma sid_given: "get_spreadsheet_id e (Some s) = Inr s"
  by (simp add: get_spreadsheet_id_def)

section \<open>The session\<close>

text \<open>
  C2. ensure\_authenticated returns an authenticated session as it is, whatever the
  environment, and changes nothing. On an unauthenticated session it runs the
  resolution once: when that fails, the call fails with ``Authentication failed'', no
  field of the session changes, and the next call (in any environment) is again
  decided by a full run of the resolution; when it succeeds, the two handles and the
  flag are set (the folder stays), and the next call returns that session as it is.
\<close>

theorem ensure_authenticated_lazy:
  "(authenticated (session w) \<longrightarrow> ensure_authenticated e w = (Inr (session w), w))
   \<and> (\<not> authenticated (session w) \<longrightarrow>
        (\<forall>x fs. authenticate_google_services e (files w) = (Inl x, fs) \<longrightarrow>
            ensure_authenticated e w =
              (Inl (raise_error (''Authentication failed: '' @ exn_str x)), w\<lparr>files := fs\<rparr>)
          \<and> session (snd (ensure_authenticated e w)) = session w
          \<and> (\<forall>e'. ensure_authenticated e' (snd (ensure_authenticated e w)) =
                (case authenticate_google_services e' fs of
                   (Inl x', fs') \<Rightarrow>
                     (Inl (raise_error (''Authentication failed: '' @ exn_str x')), w\<lparr>files := fs'\<rparr>)
                 | (Inr (s, d), fs') \<Rightarrow>
                     (Inr ((session w)\<lparr>sheets_service := Some s, drive_service := Some d,
                                       authenticated := True\<rparr>),
                      w\<lparr>session := (session w)\<lparr>sheets_service := Some s, drive_service := Some d,
                                                 authenticated := True\<rparr>,
                        files := fs'\<rparr>))))
      \<and> (\<forall>s d fs. authenticate_google_services e (files w) = (Inr (s, d), fs) \<longrightarrow>
            ensure_authenticated e w =
              (Inr ((session w)\<lparr>sheets_service := Some s, drive_service := Some d,
                                authenticated := True\<rparr>),
               w\<lparr>session := (session w)\<lparr>sheets_service := Some s, drive_service := Some d,
                                          authenticated := True\<rparr>,
                 files := fs\<rparr>)
          \<and> (\<forall>e'. ensure_authenticated e' (snd (ensure_authenticated e w)) =
                (Inr (session (snd (ensure_authenticated e w))), snd (ensure_authenticated e w)))))"
  by (auto simp add: ensure_authenticated_def split: prod.splits sum.splits)

theorem ensure_authenticated_lazy_witness:
  "ensure_authenticated no_adc_env authed_world = (Inr authed_session, authed_world)
   \<and> ensure_authenticated no_adc_env fresh_world =
       (Inl (raise_error ''Authentication failed: All authentication methods failed. Please configure credentials.''),
        fresh_world)
   \<and> ensure_authenticated example_env (snd (ensure_authenticated no_adc_env fresh_world)) =
       (Inr authed_session, authed_world)
   \<and> ensure_authenticated example_env fresh_world = (Inr authed_session, authed_world)
   \<and> ensure_authenticated no_adc_env (snd (ensure_authenticated example_env fresh_world)) =
       (Inr authed_session, authed_world)"
proof -
  have a: "authenticated (session authed_world)"
    by (simp add: authed_world_def authed_session_def)
  have f: "\<not> authenticated (session fresh_world)"
    by (simp add: fresh_world_def spreadsheet_lifespan_def)
  have fs: "files fresh_world = no_files"
    by (simp add: fresh_world_def)
  have s: "fresh_world\<lparr>session := (session fresh_world)\<lparr>
               sheets_service := Some (Service ''sheets'' ''v4'' example_creds),
               drive_service := Some (Service ''drive'' ''v3'' example_creds),
               authenticated := True\<rparr>,
             files := no_files\<rparr> = authed_world"
    "(session fresh_world)\<lparr>
        sheets_service := Some (Service ''sheets'' ''v4'' example_creds),
        drive_service := Some (Service ''drive'' ''v3'' example_creds),
        authenticated := True\<rparr> = authed_session"
    "fresh_world\<lparr>files := no_files\<rparr> = fresh_world"
    "fresh_world\<lparr>session := authed_session, files := no_files\<rparr> = authed_world"
    "session authed_world = authed_session"
    by (simp_all add: fresh_world_def authed_world_def authed_session_def
        spreadsheet_lifespan_def example_env_def)
  show ?thesis
    using ensure_authenticated_lazy [of authed_world no_adc_env]
          ensure_authenticated_lazy [of fresh_world no_adc_env]
          ensure_authenticated_lazy [of fresh_world example_env]
          a f auth_example auth_no_adc
    by (simp add: fs s all_failed_def raise_error_def)
qed

section \<open>Range addresses\<close>

text \<open>
  C7. In get\_sheet\_data, get\_sheet\_formulas and clear\_sheet\_data the address
  handed to the backend is the sheet name unchanged when the range is absent or empty,
  and the sheet name, an exclamation mark and the range otherwise.
\<close>

theorem qualified_range_address:
  assumes "get_spreadsheet_id e spreadsheet_id = Inr sid"
    and "ensure_authenticated e w = (Inr ctx, w1)"
  shows "(range' = None \<or> range' = Some [] \<longrightarrow>
            get_sheet_data e api sheet spreadsheet_id range' w =
              execute api (sheets_service ctx) (Spreadsheets_get sid (Some [sheet]) (Some True) None) w1
          \<and> get_sheet_formulas e api sheet spreadsheet_id range' w =
              (case execute api (sheets_service ctx) (Values_get sid sheet (Some ''FORMULA'')) w1 of
                 (Inl x, w2) \<Rightarrow> (Inl x, w2)
               | (Inr result, w2) \<Rightarrow> (py_get result ''values'' (JList []), w2))
          \<and> clear_sheet_data e api sheet spreadsheet_id range' w =
              execute api (sheets_service ctx) (Values_clear sid sheet (JDict [])) w1)
       \<and> (\<forall>r. range' = Some r \<and> r \<noteq> [] \<longrightarrow>
            get_sheet_data e api sheet spreadsheet_id range' w =
              execute api (sheets_service ctx)
                (Spreadsheets_get sid (Some [sheet @ ''!'' @ r]) (Some True) None) w1
          \<and> get_sheet_formulas e api sheet spreadsheet_id range' w =
              (case execute api (sheets_service ctx)
                      (Values_get sid (sheet @ ''!'' @ r) (Some ''FORMULA'')) w1 of
                 (Inl x, w2) \<Rightarrow> (Inl x, w2)
               | (Inr result, w2) \<Rightarrow> (py_get result ''values'' (JList []), w2))
          \<and> clear_sheet_data e api sheet spreadsheet_id range' w =
              execute api (sheets_service ctx) (Values_clear sid (sheet @ ''!'' @ r) (JDict [])) w1)"
  using assms
  by (auto simp add: get_sheet_data_def get_sheet_formulas_def clear_sheet_data_def truthy_str_def)

theorem qualified_range_address_witness:
  "fst (get_sheet_data example_env echo_api ''Sheet1'' (Some ''book1'') (Some ''A1:C10'') authed_world)
     = Inr (JStr ''Sheet1!A1:C10'')
   \<and> fst (get_sheet_data example_env echo_api ''Sheet1'' (Some ''book1'') None authed_world)
     = Inr (JStr ''Sheet1'')
   \<and> fst (get_sheet_formulas example_env echo_api ''Sheet1'' (Some ''book1'') (Some []) authed_world)
     = Inr (JStr ''Sheet1'')
   \<and> fst (clear_sheet_data example_env echo_api ''Sheet1'' (Some ''book1'') (Some ''B2'') authed_world)
     = Inr (JStr ''Sheet1!B2'')"
  using qualified_range_address [where e = example_env and api = echo_api and sheet = "''Sheet1''"
          and range' = "Some ''A1:C10''", OF sid_given ensure_authed_world]
        qualified_range_address [where e = example_env and api = echo_api and sheet = "''Sheet1''"
          and range' = "None", OF sid_given ensure_authed_world]
        qualified_range_address [where e = example_env and api = echo_api and sheet = "''Sheet1''"
          and range' = "Some []", OF sid_given ensure_authed_world]
        qualified_range_address [where e = example_env and api = echo_api and sheet = "''Sheet1''"
          and range' = "Some ''B2''", OF sid_given ensure_authed_world]
  by (simp add: execute_def echo_api_def authed_session_def authed_world_def py_get_def)


section \<open>Inserting rows and columns\<close>

lemma execute_book_get:
  "execute book_api (sheets_service authed_session) (Spreadsheets_get ''book1'' ranges grid flds)
     authed_world = (Inr book, authed_world\<lparr>remote := 1\<rparr>)"
  by (simp add: execute_def book_api_def authed_session_def authed_world_def)

lemma lookup_book_Sheet1: "lookup_sheet_id book ''Sheet1'' = Inr (JInt 0)"
  by (simp add: lookup_sheet_id_def book_def subscript_def py_iter_def)

text \<open>
  C4. When the sheet is found, add\_rows and add\_columns send one batch update whose
  insertDimension range has the sheet's id and the dimension ROWS or COLUMNS; with no
  start index its startIndex is 0 and its endIndex is count, with the start index s
  they are s and s + count; inheritFromBefore is true exactly when a start index
  greater than 0 was given.
\<close>

theorem dimension_insert_request:
  assumes "get_spreadsheet_id e spreadsheet_id = Inr sid"
    and "ensure_authenticated e w = (Inr ctx, w1)"
    and "execute api (sheets_service ctx) (Spreadsheets_get sid None None None) w1
           = (Inr spreadsheet, w2)"
    and "lookup_sheet_id spreadsheet sheet = Inr sheet_id"
    and "sheet_id \<noteq> JNull"
  shows "add_rows e api sheet count spreadsheet_id start w =
           execute api (sheets_service ctx)
             (Spreadsheets_batchUpdate sid (insert_dimension_body ''ROWS'' sheet_id count start)) w2
       \<and> add_columns e api sheet count spreadsheet_id start w =
           execute api (sheets_service ctx)
             (Spreadsheets_batchUpdate sid (insert_dimension_body ''COLUMNS'' sheet_id count start)) w2
       \<and> (\<forall>d. json_at (insert_dimension_body d sheet_id count start) (inserted_range ''sheetId'')
                 = Some sheet_id
             \<and> json_at (insert_dimension_body d sheet_id count start) (inserted_range ''dimension'')
                 = Some (JStr d)
             \<and> (start = None \<longrightarrow>
                   json_at (insert_dimension_body d sheet_id count start)
                     (inserted_range ''startIndex'') = Some (JInt 0)
                 \<and> json_at (insert_dimension_body d sheet_id count start)
                     (inserted_range ''endIndex'') = Some (JInt count))
             \<and> (\<forall>s. start = Some s \<longrightarrow>
                   json_at (insert_dimension_body d sheet_id count start)
                     (inserted_range ''startIndex'') = Some (JInt s)
                 \<and> json_at (insert_dimension_body d sheet_id count start)
                     (inserted_range ''endIndex'') = Some (JInt (s + count)))
             \<and> json_at (insert_dimension_body d sheet_id count start) inherit_flag
                 = Some (JBool (\<exists>s. start = Some s \<and> 0 < s)))"
proof -
  have rows: "add_rows e api sheet count spreadsheet_id start w =
      execute api (sheets_service ctx)
        (Spreadsheets_batchUpdate sid (insert_dimension_body ''ROWS'' sheet_id count start)) w2"
    using assms by (simp add: add_rows_def)
  have cols: "add_columns e api sheet count spreadsheet_id start w =
      execute api (sheets_service ctx)
        (Spreadsheets_batchUpdate sid (insert_dimension_body ''COLUMNS'' sheet_id count start)) w2"
    using assms by (simp add: add_columns_def)
  have body: "\<And>d. json_at (insert_dimension_body d sheet_id count start) (inserted_range ''sheetId'')
                 = Some sheet_id
             \<and> json_at (insert_dimension_body d sheet_id count start) (inserted_range ''dimension'')
                 = Some (JStr d)
             \<and> (start = None \<longrightarrow>
                   json_at (insert_dimension_body d sheet_id count start)
                     (inserted_range ''startIndex'') = Some (JInt 0)
                 \<and> json_at (insert_dimension_body d sheet_id count start)
                     (inserted_range ''endIndex'') = Some (JInt count))
             \<and> (\<forall>s. start = Some s \<longrightarrow>
                   json_at (insert_dimension_body d sheet_id count start)
                     (inserted_range ''startIndex'') = Some (JInt s)
                 \<and> json_at (insert_dimension_body d sheet_id count start)
                     (inserted_range ''endIndex'') = Some (JInt (s + count)))
             \<and> json_at (insert_dimension_body d sheet_id count start) inherit_flag
                 = Some (JBool (\<exists>s. start = Some s \<and> 0 < s))"
    by (cases start) (simp_all add: insert_dimension_body_def inserted_range_def inherit_flag_def)
  from rows cols body show ?thesis by blast
qed

theorem dimension_insert_request_witness:
  "fst (add_rows example_env book_api ''Sheet1'' 3 (Some ''book1'') None authed_world)
     = Inr (insert_dimension_body ''ROWS'' (JInt 0) 3 None)
   \<and> json_at (insert_dimension_body ''ROWS'' (JInt 0) 3 None) (inserted_range ''sheetId'')
       = Some (JInt 0)
   \<and> json_at (insert_dimension_body ''ROWS'' (JInt 0) 3 None) (inserted_range ''startIndex'')
       = Some (JInt 0)
   \<and> json_at (insert_dimension_body ''ROWS'' (JInt 0) 3 None) (inserted_range ''endIndex'')
       = Some (JInt 3)
   \<and> json_at (insert_dimension_body ''ROWS'' (JInt 0) 3 None) inherit_flag = Some (JBool False)
   \<and> fst (add_columns example_env book_api ''Sheet1'' 3 (Some ''book1'') (Some 4) authed_world)
       = Inr (insert_dimension_body ''COLUMNS'' (JInt 0) 3 (Some 4))
   \<and> json_at (insert_dimension_body ''COLUMNS'' (JInt 0) 3 (Some 4)) (inserted_range ''startIndex'')
       = Some (JInt 4)
   \<and> json_at (insert_dimension_body ''COLUMNS'' (JInt 0) 3 (Some 4)) (inserted_range ''endIndex'')
       = Some (JInt 7)
   \<and> json_at (insert_dimension_body ''COLUMNS'' (JInt 0) 3 (Some 4)) inherit_flag
       = Some (JBool True)
   \<and> json_at (insert_dimension_body ''ROWS'' (JInt 0) 3 (Some 0)) inherit_flag
       = Some (JBool False)"
proof -
  have nn: "JInt 0 \<noteq> JNull" by simp
  note a = dimension_insert_request [where e = example_env and api = book_api
      and sheet = "''Sheet1''" and count = 3 and start = None,
      OF sid_given ensure_authed_world execute_book_get lookup_book_Sheet1 nn]
  note b = dimension_insert_request [where e = example_env and api = book_api
      and sheet = "''Sheet1''" and count = 3 and start = "Some 4",
      OF sid_given ensure_authed_world execute_book_get lookup_book_Sheet1 nn]
  note c = dimension_insert_request [where e = example_env and api = book_api
      and sheet = "''Sheet1''" and count = 3 and start = "Some 0",
      OF sid_given ensure_authed_world execute_book_get lookup_book_Sheet1 nn]
  show ?thesis
    using a b c
    by (simp add: execute_def book_api_def authed_session_def authed_world_def)
qed


section \<open>Looking a sheet up by name\<close>

lemma find_sheet_id_absent: "absent_from sheet ss \<Longrightarrow> find_sheet_id ss sheet = Inr JNull"
  by (induction ss) (auto simp add: absent_from_def split: sum.splits)

lemma find_properties_absent: "absent_from sheet ss \<Longrightarrow> find_properties ss sheet = Inr None"
  by (induction ss) (auto simp add: absent_from_def split: sum.splits)

lemma lookup_sheet_id_absent:
  "subscript spreadsheet ''sheets'' = Inr (JList ss) \<Longrightarrow> absent_from sheet ss
     \<Longrightarrow> lookup_sheet_id spreadsheet sheet = Inr JNull"
  by (simp add: lookup_sheet_id_def py_iter_def find_sheet_id_absent)

lemma book_sheets:
  "subscript book ''sheets'' = Inr (JList [JDict [(''properties'',
       JDict [(''title'', JStr ''Sheet1''), (''sheetId'', JInt 0)])]])"
  "py_get book ''sheets'' (JList []) = Inr (JList [JDict [(''properties'',
       JDict [(''title'', JStr ''Sheet1''), (''sheetId'', JInt 0)])]])"
  by (simp_all add: book_def subscript_def py_get_def)

lemma book_lacks_Totals:
  "absent_from ''Totals'' [JDict [(''properties'',
       JDict [(''title'', JStr ''Sheet1''), (''sheetId'', JInt 0)])]]"
  by (simp add: absent_from_def subscript_def)

text \<open>
  C5, as the code has it. add\_rows, add\_columns, delete\_sheet, rename\_sheet and
  copy\_sheet read the whole spreadsheet: when that reply has no sheet of the given
  name, the first four return the value \<^verbatim>\<open>{"error": "Sheet '<name>' not found"}\<close> and
  copy\_sheet returns \<^verbatim>\<open>{"error": "Source sheet '<name>' not found"}\<close>; none of them
  raises, and none sends another request. get\_sheet\_properties asks the backend for
  the range \<^verbatim>\<open><name>\<close> alone: when the backend answers and its answer has no sheet of
  that name, the value is \<^verbatim>\<open>{"error": "Sheet '<name>' not found"}\<close>; when the backend
  rejects the request, that failure is raised.
\<close>

theorem sheet_not_found_soft:
  assumes "ensure_authenticated e w = (Inr ctx, w1)"
  shows "sheet_not_found sheet =
           JDict [(''error'', JStr (''Sheet '' @ [CHR 0x27] @ sheet @ [CHR 0x27] @ '' not found''))]
       \<and> (\<forall>spreadsheet w2 ss.
             execute api (sheets_service ctx) (Spreadsheets_get sid None None None) w1
               = (Inr spreadsheet, w2)
           \<and> subscript spreadsheet ''sheets'' = Inr (JList ss)
           \<and> absent_from sheet ss \<longrightarrow>
             (get_spreadsheet_id e spreadsheet_id = Inr sid \<longrightarrow>
                add_rows e api sheet count spreadsheet_id start w = (Inr (sheet_not_found sheet), w2)
              \<and> add_columns e api sheet count spreadsheet_id start w
                  = (Inr (sheet_not_found sheet), w2)
              \<and> delete_sheet e api sheet spreadsheet_id w = (Inr (sheet_not_found sheet), w2))
           \<and> rename_sheet e api sid sheet new_name w = (Inr (sheet_not_found sheet), w2)
           \<and> copy_sheet e api sid sheet dst_spreadsheet dst_sheet w =
               (Inr (JDict [(''error'',
                  JStr (''Source sheet '' @ [CHR 0x27] @ sheet @ [CHR 0x27] @ '' not found''))]), w2))
       \<and> (get_spreadsheet_id e spreadsheet_id = Inr sid \<longrightarrow>
            (\<forall>spreadsheet w2 ss.
               execute api (sheets_service ctx)
                 (Spreadsheets_get sid (Some [sheet]) None (Some ''sheets(properties,data)'')) w1
                 = (Inr spreadsheet, w2)
             \<and> py_get spreadsheet ''sheets'' (JList []) = Inr (JList ss)
             \<and> absent_from sheet ss \<longrightarrow>
               get_sheet_properties e api sheet spreadsheet_id w = (Inr (sheet_not_found sheet), w2))
          \<and> (\<forall>x w2.
               execute api (sheets_service ctx)
                 (Spreadsheets_get sid (Some [sheet]) None (Some ''sheets(properties,data)'')) w1
                 = (Inl x, w2) \<longrightarrow>
               get_sheet_properties e api sheet spreadsheet_id w = (Inl x, w2)))"
proof (intro conjI allI impI)
  show "sheet_not_found sheet =
      JDict [(''error'', JStr (''Sheet '' @ [CHR 0x27] @ sheet @ [CHR 0x27] @ '' not found''))]"
    by (simp add: sheet_not_found_def quote_def)
next
  fix spreadsheet w2 ss
  assume h: "execute api (sheets_service ctx) (Spreadsheets_get sid None None None) w1
               = (Inr spreadsheet, w2)
           \<and> subscript spreadsheet ''sheets'' = Inr (JList ss)
           \<and> absent_from sheet ss"
  then have l: "lookup_sheet_id spreadsheet sheet = Inr JNull"
    by (simp add: lookup_sheet_id_absent)
  show "rename_sheet e api sid sheet new_name w = (Inr (sheet_not_found sheet), w2)"
    using assms h l by (simp add: rename_sheet_def)
  show "copy_sheet e api sid sheet dst_spreadsheet dst_sheet w =
      (Inr (JDict [(''error'',
         JStr (''Source sheet '' @ [CHR 0x27] @ sheet @ [CHR 0x27] @ '' not found''))]), w2)"
    using assms h l by (simp add: copy_sheet_def quote_def)
  assume s: "get_spreadsheet_id e spreadsheet_id = Inr sid"
  show "add_rows e api sheet count spreadsheet_id start w = (Inr (sheet_not_found sheet), w2)"
    using assms h l s by (simp add: add_rows_def)
  show "add_columns e api sheet count spreadsheet_id start w = (Inr (sheet_not_found sheet), w2)"
    using assms h l s by (simp add: add_columns_def)
  show "delete_sheet e api sheet spreadsheet_id w = (Inr (sheet_not_found sheet), w2)"
    using assms h l s by (simp add: delete_sheet_def)
next
  fix spreadsheet w2 ss
  assume s: "get_spreadsheet_id e spreadsheet_id = Inr sid"
  assume h: "execute api (sheets_service ctx)
                 (Spreadsheets_get sid (Some [sheet]) None (Some ''sheets(properties,data)'')) w1
                 = (Inr spreadsheet, w2)
             \<and> py_get spreadsheet ''sheets'' (JList []) = Inr (JList ss)
             \<and> absent_from sheet ss"
  then have p: "find_properties ss sheet = Inr None"
    by (simp add: find_properties_absent)
  show "get_sheet_properties e api sheet spreadsheet_id w = (Inr (sheet_not_found sheet), w2)"
    using assms h p s by (simp add: get_sheet_properties_def py_iter_def)
next
  fix x w2
  assume s: "get_spreadsheet_id e spreadsheet_id = Inr sid"
  assume h: "execute api (sheets_service ctx)
                 (Spreadsheets_get sid (Some [sheet]) None (Some ''sheets(properties,data)'')) w1
                 = (Inl x, w2)"
  show "get_sheet_properties e api sheet spreadsheet_id w = (Inl x, w2)"
    using assms h s by (simp add: get_sheet_properties_def)
qed

theorem sheet_not_found_soft_witness:
  "add_rows example_env book_api ''Totals'' 2 (Some ''book1'') None authed_world
     = (Inr (JDict [(''error'', JStr (''Sheet '' @ [CHR 0x27] @ ''Totals'' @ [CHR 0x27] @ '' not found''))]),
        authed_world\<lparr>remote := 1\<rparr>)
   \<and> add_columns example_env book_api ''Totals'' 2 (Some ''book1'') None authed_world
     = (Inr (sheet_not_found ''Totals''), authed_world\<lparr>remote := 1\<rparr>)
   \<and> delete_sheet example_env book_api ''Totals'' (Some ''book1'') authed_world
     = (Inr (sheet_not_found ''Totals''), authed_world\<lparr>remote := 1\<rparr>)
   \<and> rename_sheet example_env book_api ''book1'' ''Totals'' ''Sums'' authed_world
     = (Inr (sheet_not_found ''Totals''), authed_world\<lparr>remote := 1\<rparr>)
   \<and> copy_sheet example_env book_api ''book1'' ''Totals'' ''book2'' ''Sums'' authed_world
     = (Inr (JDict [(''error'',
          JStr (''Source sheet '' @ [CHR 0x27] @ ''Totals'' @ [CHR 0x27] @ '' not found''))]),
        authed_world\<lparr>remote := 1\<rparr>)
   \<and> get_sheet_properties example_env book_api ''Totals'' (Some ''book1'') authed_world
     = (Inr (sheet_not_found ''Totals''), authed_world\<lparr>remote := 1\<rparr>)
   \<and> add_rows example_env strict_api ''Totals'' 2 (Some ''book1'') None authed_world
     = (Inr (sheet_not_found ''Totals''), authed_world\<lparr>remote := 1\<rparr>)
   \<and> get_sheet_properties example_env strict_api ''Totals'' (Some ''book1'') authed_world
     = (Inl (raise_error ''HttpError 400: Unable to parse range''),
        authed_world\<lparr>remote := 1\<rparr>)"
proof -
  note t = sheet_not_found_soft [where e = example_env and sheet = "''Totals''"
      and sid = "''book1''" and spreadsheet_id = "Some ''book1''" and count = 2 and start = None
      and new_name = "''Sums''" and dst_spreadsheet = "''book2''" and dst_sheet = "''Sums''",
      OF ensure_authed_world]
  have strict_get: "execute strict_api (sheets_service authed_session)
        (Spreadsheets_get ''book1'' None None None) authed_world
      = (Inr book, authed_world\<lparr>remote := 1\<rparr>)"
    by (simp add: execute_def strict_api_def book_api_def authed_world_def authed_session_def)
  have strict_ranged: "execute strict_api (sheets_service authed_session)
        (Spreadsheets_get ''book1'' (Some [''Totals'']) None (Some ''sheets(properties,data)''))
        authed_world
      = (Inl (raise_error ''HttpError 400: Unable to parse range''),
         authed_world\<lparr>remote := 1\<rparr>)"
    by (simp add: execute_def strict_api_def authed_world_def authed_session_def)
  show ?thesis
    using t [where api = book_api] t [where api = strict_api]
      execute_book_get book_sheets book_lacks_Totals strict_get strict_ranged
    by (simp add: get_spreadsheet_id_def sheet_not_found_def quote_def)
qed

text \<open>
  C5, as it is stated, fails for copy\_sheet: for the absent sheet \<^verbatim>\<open>Totals\<close> it returns
  \<^verbatim>\<open>{"error": "Source sheet 'Totals' not found"}\<close>, which is not
  \<^verbatim>\<open>{"error": "Sheet 'Totals' not found"}\<close>.
\<close>

theorem copy_sheet_message_counterexample:
  "fst (copy_sheet example_env book_api ''book1'' ''Totals'' ''book2'' ''Sums'' authed_world)
     = Inr (JDict [(''error'',
          JStr (''Source sheet '' @ [CHR 0x27] @ ''Totals'' @ [CHR 0x27] @ '' not found''))])
   \<and> fst (copy_sheet example_env book_api ''book1'' ''Totals'' ''book2'' ''Sums'' authed_world)
     \<noteq> Inr (JDict [(''error'',
          JStr (''Sheet '' @ [CHR 0x27] @ ''Totals'' @ [CHR 0x27] @ '' not found''))])"
  by (simp add: copy_sheet_def ensure_authed_world execute_book_get lookup_sheet_id_def
      book_def subscript_def py_iter_def quote_def)


section \<open>The loops of the multi-item operations\<close>


lemma fetch_queries_acc:
  "fetch_queries api s qs acc w =
     (acc @ fst (fetch_queries api s qs [] w), snd (fetch_queries api s qs [] w))"
proof (induction qs arbitrary: acc w)
  case Nil
  show ?case by simp
next
  case (Cons q qs)
  obtain entry w' where step: "fetch_query api s q w = (entry, w')"
    by (cases "fetch_query api s q w")
  have 1: "fetch_queries api s qs (acc @ [entry]) w' =
      ((acc @ [entry]) @ fst (fetch_queries api s qs [] w'), snd (fetch_queries api s qs [] w'))"
    by (rule Cons.IH)
  have 2: "fetch_queries api s qs [entry] w' =
      ([entry] @ fst (fetch_queries api s qs [] w'), snd (fetch_queries api s qs [] w'))"
    by (rule Cons.IH)
  show ?case
    by (simp add: step 1) (simp add: 2)
qed






section \<open>Items that lack a required field\<close>


lemmas example_defs =
  complete_query_def incomplete_query_def labelled_query_def ann_def bob_def nobody_def
  denied_def odd_def authed_world_def authed_session_def book_api_def book_def

lemmas python_defs =
  truthy_str_def truthy_def subscript_def py_get_def py_iter_def query_entry_def execute_def
  raise_error_def quote_def



section \<open>The fields of a result entry\<close>

lemma map_of_dict_set:
  "map_of (dict_set k v d) k' = (if k' = k then Some v else map_of d k')"
  by (induction d) auto

lemma map_of_query_entry: "map_of (query_entry q) k = map_option JStr (map_of q k)"
  by (induction q) (auto simp add: query_entry_def)

lemma has_key_data_entry:
  "has_key (JDict (dict_set ''data'' v (query_entry q))) k
     = (k = ''data'' \<or> map_of q k \<noteq> None)"
  by (auto simp add: has_key_def map_of_dict_set map_of_query_entry)

lemma has_key_error_entry:
  "has_key (JDict (dict_set ''error'' v (query_entry q))) k
     = (k = ''error'' \<or> map_of q k \<noteq> None)"
  by (auto simp add: has_key_def map_of_dict_set map_of_query_entry)

lemma fetch_query_entry:
  "(\<exists>v. fst (fetch_query api s q w) = JDict (dict_set ''data'' v (query_entry q)))
   \<or> (\<exists>v. fst (fetch_query api s q w) = JDict (dict_set ''error'' v (query_entry q)))"
  by (auto simp add: fetch_query_def split: prod.splits sum.splits)

lemma fetch_query_keys:
  "(has_key (fst (fetch_query api s q w)) ''data'' \<or> has_key (fst (fetch_query api s q w)) ''error'')
   \<and> (map_of q ''data'' = None \<and> map_of q ''error'' = None \<longrightarrow>
        \<not> (has_key (fst (fetch_query api s q w)) ''data''
           \<and> has_key (fst (fetch_query api s q w)) ''error''))"
  using fetch_query_entry [of api s q w]
  by (auto simp add: has_key_data_entry has_key_error_entry)

lemma fetch_queries_keys:
  "list_all2 (\<lambda>q entry. (has_key entry ''data'' \<or> has_key entry ''error'')
                \<and> (map_of q ''data'' = None \<and> map_of q ''error'' = None \<longrightarrow>
                     \<not> (has_key entry ''data'' \<and> has_key entry ''error'')))
     qs (fst (fetch_queries api s qs [] w))"
proof (induction qs arbitrary: w)
  case Nil
  show ?case by simp
next
  case (Cons q qs)
  obtain entry w' where step: "fetch_query api s q w = (entry, w')"
    by (cases "fetch_query api s q w")
  have acc: "fetch_queries api s qs [entry] w' =
      ([entry] @ fst (fetch_queries api s qs [] w'), snd (fetch_queries api s qs [] w'))"
    by (rule fetch_queries_acc)
  have "fst (fetch_queries api s (q # qs) [] w) = entry # fst (fetch_queries api s qs [] w')"
    by (simp add: step acc)
  moreover have "(has_key entry ''data'' \<or> has_key entry ''error'')
      \<and> (map_of q ''data'' = None \<and> map_of q ''error'' = None \<longrightarrow>
           \<not> (has_key entry ''data'' \<and> has_key entry ''error''))"
    using fetch_query_keys [of api s q w] by (simp add: step)
  ultimately show ?case
    using Cons.IH [of w'] by simp
qed

lemma share_failure_keys:
  "share_failure e a x = Inr entry
     \<Longrightarrow> has_key entry ''error'' \<and> \<not> has_key entry ''permissionId''"
  by (auto simp add: share_failure_def has_key_def split: sum.splits)

lemma share_recipient_keys:
  "share_recipient e api d sid n r w = (Inr out, w') \<Longrightarrow>
     (case out of
        Success entry \<Rightarrow> has_key entry ''permissionId'' \<and> \<not> has_key entry ''error''
      | Failure entry \<Rightarrow> has_key entry ''error'' \<and> \<not> has_key entry ''permissionId'')"
  by (auto simp add: share_recipient_def has_key_def
      split: if_splits prod.splits sum.splits dest: share_failure_keys)

lemma share_recipients_keys:
  "share_recipients e api d sid n rs S F w = (Inr (S', F'), w')
   \<Longrightarrow> \<forall>entry\<in>set S. has_key entry ''permissionId'' \<and> \<not> has_key entry ''error''
   \<Longrightarrow> \<forall>entry\<in>set F. has_key entry ''error'' \<and> \<not> has_key entry ''permissionId''
   \<Longrightarrow> (\<forall>entry\<in>set S'. has_key entry ''permissionId'' \<and> \<not> has_key entry ''error'')
     \<and> (\<forall>entry\<in>set F'. has_key entry ''error'' \<and> \<not> has_key entry ''permissionId'')"
proof (induction rs arbitrary: S F w)
  case Nil
  then show ?case by simp
next
  case (Cons r rs)
  obtain res w1 where step: "share_recipient e api d sid n r w = (res, w1)"
    by (cases "share_recipient e api d sid n r w")
  show ?case
  proof (cases res)
    case (Inl x)
    with Cons.prems(1) step show ?thesis by simp
  next
    case (Inr out)
    note k = share_recipient_keys [OF step [unfolded Inr]]
    show ?thesis
    proof (cases out)
      case (Success entry)
      have run: "share_recipients e api d sid n rs (S @ [entry]) F w1 = (Inr (S', F'), w')"
        using Cons.prems(1) step Inr Success by simp
      have "\<forall>x\<in>set (S @ [entry]). has_key x ''permissionId'' \<and> \<not> has_key x ''error''"
        using Cons.prems(2) k Success by simp
      from Cons.IH [OF run this Cons.prems(3)] show ?thesis .
    next
      case (Failure entry)
      have run: "share_recipients e api d sid n rs S (F @ [entry]) w1 = (Inr (S', F'), w')"
        using Cons.prems(1) step Inr Failure by simp
      have "\<forall>x\<in>set (F @ [entry]). has_key x ''error'' \<and> \<not> has_key x ''permissionId''"
        using Cons.prems(3) k Failure by simp
      from Cons.IH [OF run Cons.prems(2) this] show ?thesis .
    qed
  qed
qed

lemma summarize_spreadsheet_shape:
  "\<exists>title sheets err.
      fst (summarize_spreadsheet e api s rows sid w) = summary_dict sid title sheets err
    \<and> (err = JNull \<or> (\<exists>m. err = JStr m \<and> sheets = []))"
  by (auto simp add: summarize_spreadsheet_def spreadsheet_error_def
      split: prod.splits sum.splits)

lemma summarize_spreadsheets_acc:
  "summarize_spreadsheets e api s rows ids acc w =
     (acc @ fst (summarize_spreadsheets e api s rows ids [] w),
      snd (summarize_spreadsheets e api s rows ids [] w))"
proof (induction ids arbitrary: acc w)
  case Nil
  show ?case by simp
next
  case (Cons i ids)
  obtain entry w' where step: "summarize_spreadsheet e api s rows i w = (entry, w')"
    by (cases "summarize_spreadsheet e api s rows i w")
  have 1: "summarize_spreadsheets e api s rows ids (acc @ [entry]) w' =
      ((acc @ [entry]) @ fst (summarize_spreadsheets e api s rows ids [] w'),
       snd (summarize_spreadsheets e api s rows ids [] w'))"
    by (rule Cons.IH)
  have 2: "summarize_spreadsheets e api s rows ids [entry] w' =
      ([entry] @ fst (summarize_spreadsheets e api s rows ids [] w'),
       snd (summarize_spreadsheets e api s rows ids [] w'))"
    by (rule Cons.IH)
  show ?case
    by (simp add: step 1) (simp add: 2)
qed

lemma summarize_spreadsheets_shape:
  "list_all2 (\<lambda>sid entry. \<exists>title sheets err.
                 entry = summary_dict sid title sheets err
               \<and> (err = JNull \<or> (\<exists>m. err = JStr m \<and> sheets = [])))
     ids (fst (summarize_spreadsheets e api s rows ids [] w))"
proof (induction ids arbitrary: w)
  case Nil
  show ?case by simp
next
  case (Cons i ids)
  obtain entry w' where step: "summarize_spreadsheet e api s rows i w = (entry, w')"
    by (cases "summarize_spreadsheet e api s rows i w")
  have acc: "summarize_spreadsheets e api s rows ids [entry] w' =
      ([entry] @ fst (summarize_spreadsheets e api s rows ids [] w'),
       snd (summarize_spreadsheets e api s rows ids [] w'))"
    by (rule summarize_spreadsheets_acc)
  have "fst (summarize_spreadsheets e api s rows (i # ids) [] w)
          = entry # fst (summarize_spreadsheets e api s rows ids [] w')"
    by (simp add: step acc)
  moreover have "\<exists>title sheets err. entry = summary_dict i title sheets err
      \<and> (err = JNull \<or> (\<exists>m. err = JStr m \<and> sheets = []))"
    using summarize_spreadsheet_shape [of e api s rows i w] by (simp add: step)
  ultimately show ?case
    using Cons.IH [of w'] by simp
qed

text \<open>
  C8, as the code has it. Every entry of get\_multiple\_sheet\_data has a data or an
  error key, and it has both only if the query itself came with a key of one of the
  two names. Every entry among the successes
  of share\_spreadsheet has a permissionId and no error, every entry among its
  failures an error and no permissionId. Every entry of
  get\_multiple\_spreadsheet\_summary has the keys spreadsheet\_id, title, sheets and
  error, and its error is None or a message with an empty list of sheets.
\<close>

theorem outcome_fields:
  "(get_multiple_sheet_data e api queries w = (Inr results, w') \<longrightarrow>
      list_all2 (\<lambda>q entry. (has_key entry ''data'' \<or> has_key entry ''error'')
                   \<and> (map_of q ''data'' = None \<and> map_of q ''error'' = None \<longrightarrow>
                        \<not> (has_key entry ''data'' \<and> has_key entry ''error'')))
        queries results)
   \<and> (share_spreadsheet e api recipients spreadsheet_id notify w = (Inr result, w') \<longrightarrow>
        (\<exists>S F. result = JDict [(''successes'', JList S), (''failures'', JList F)]
           \<and> (\<forall>entry\<in>set S. has_key entry ''permissionId'' \<and> \<not> has_key entry ''error'')
           \<and> (\<forall>entry\<in>set F. has_key entry ''error'' \<and> \<not> has_key entry ''permissionId'')))
   \<and> (get_multiple_spreadsheet_summary e api ids rows w = (Inr summaries, w') \<longrightarrow>
        list_all2 (\<lambda>sid entry. \<exists>title sheets err.
                      entry = JDict [(''spreadsheet_id'', JStr sid), (''title'', title),
                                     (''sheets'', JList sheets), (''error'', err)]
                    \<and> (err = JNull \<or> (\<exists>m. err = JStr m \<and> sheets = [])))
          ids summaries)"
proof (intro conjI impI)
  assume a: "get_multiple_sheet_data e api queries w = (Inr results, w')"
  then have "\<exists>(ctx :: SpreadsheetContext) w1. fetch_queries api (sheets_service ctx) queries [] w1 = (results, w')"
    by (auto simp add: get_multiple_sheet_data_def split: prod.splits sum.splits)
  then obtain ctx :: SpreadsheetContext and w1 where "fetch_queries api (sheets_service ctx) queries [] w1 = (results, w')"
    by blast
  then have "results = fst (fetch_queries api (sheets_service ctx) queries [] w1)"
    by simp
  then show "list_all2 (\<lambda>q entry. (has_key entry ''data'' \<or> has_key entry ''error'')
                   \<and> (map_of q ''data'' = None \<and> map_of q ''error'' = None \<longrightarrow>
                        \<not> (has_key entry ''data'' \<and> has_key entry ''error'')))
        queries results"
    using fetch_queries_keys by simp
next
  assume a: "share_spreadsheet e api recipients spreadsheet_id notify w = (Inr result, w')"
  then have "\<exists>(ctx :: SpreadsheetContext) sid w1 S F.
        result = JDict [(''successes'', JList S), (''failures'', JList F)]
      \<and> share_recipients e api (drive_service ctx) sid notify recipients [] [] w1
            = (Inr (S, F), w')"
    by (fastforce simp add: share_spreadsheet_def split: prod.splits sum.splits)
  then obtain ctx :: SpreadsheetContext and sid w1 S F where
      r: "result = JDict [(''successes'', JList S), (''failures'', JList F)]"
      and run: "share_recipients e api (drive_service ctx) sid notify recipients [] [] w1
                  = (Inr (S, F), w')"
    by blast
  have "(\<forall>entry\<in>set S. has_key entry ''permissionId'' \<and> \<not> has_key entry ''error'')
      \<and> (\<forall>entry\<in>set F. has_key entry ''error'' \<and> \<not> has_key entry ''permissionId'')"
    by (rule share_recipients_keys [OF run]) simp_all
  with r show "\<exists>S F. result = JDict [(''successes'', JList S), (''failures'', JList F)]
           \<and> (\<forall>entry\<in>set S. has_key entry ''permissionId'' \<and> \<not> has_key entry ''error'')
           \<and> (\<forall>entry\<in>set F. has_key entry ''error'' \<and> \<not> has_key entry ''permissionId'')"
    by blast
next
  assume a: "get_multiple_spreadsheet_summary e api ids rows w = (Inr summaries, w')"
  then have "\<exists>(ctx :: SpreadsheetContext) w1.
      summarize_spreadsheets e api (sheets_service ctx) rows ids [] w1 = (summaries, w')"
    by (auto simp add: get_multiple_spreadsheet_summary_def split: prod.splits sum.splits)
  then obtain ctx :: SpreadsheetContext and w1 where
      "summarize_spreadsheets e api (sheets_service ctx) rows ids [] w1 = (summaries, w')"
    by blast
  then have "summaries = fst (summarize_spreadsheets e api (sheets_service ctx) rows ids [] w1)"
    by simp
  then show "list_all2 (\<lambda>sid entry. \<exists>title sheets err.
                      entry = JDict [(''spreadsheet_id'', JStr sid), (''title'', title),
                                     (''sheets'', JList sheets), (''error'', err)]
                    \<and> (err = JNull \<or> (\<exists>m. err = JStr m \<and> sheets = [])))
          ids summaries"
    using summarize_spreadsheets_shape [of ids e api "sheets_service ctx" rows w1]
    by (simp add: summary_dict_def)
qed


lemma fetch_two_queries:
  "get_multiple_sheet_data example_env book_api [complete_query, incomplete_query] authed_world =
     (Inr [JDict [(''spreadsheet_id'', JStr ''book1''), (''sheet'', JStr ''Sheet1''),
                  (''range'', JStr ''A1:B2''), (''data'', JList [JList [JStr ''name'']])],
           JDict [(''sheet'', JStr ''Sheet1''), (''range'', JStr ''A1:B2''),
                  (''error'', JStr ''Missing required keys (spreadsheet_id, sheet, range)'')]],
      authed_world\<lparr>remote := 1\<rparr>)"
  by (simp add: get_multiple_sheet_data_def ensure_authenticated_def fetch_query_def missing_keys_def
      example_defs python_defs)

lemma share_three_recipients:
  "share_spreadsheet example_env book_api [ann, denied, nobody] (Some ''book1'') True authed_world =
     (Inr (JDict [(''successes'', JList [
                     JDict [(''email_address'', JStr ''ann@example.com''), (''role'', JStr ''reader''),
                            (''permissionId'', JStr ''perm1'')]]),
                  (''failures'', JList [
                     JDict [(''email_address'', JStr ''denied@example.com''),
                            (''error'', JStr ''Failed to share: denied'')],
                     JDict [(''email_address'', JNull),
                            (''error'', JStr ''Missing email_address in recipient entry.'')]])]),
      authed_world\<lparr>remote := 2\<rparr>)"
  by (simp add: share_spreadsheet_def get_spreadsheet_id_def ensure_authenticated_def
      share_recipient_def share_failure_def error_details_def format_value_def
      example_defs python_defs)

lemma summarize_two_spreadsheets:
  "get_multiple_spreadsheet_summary example_env book_api [''book1'', ''missing''] 5 authed_world =
     (Inr [JDict [(''spreadsheet_id'', JStr ''book1''), (''title'', JStr ''Book''),
                  (''sheets'', JList [
                     JDict [(''title'', JStr ''Sheet1''), (''sheet_id'', JInt 0),
                            (''headers'', JList [JStr ''name'']), (''first_rows'', JList []),
                            (''error'', JNull)]]),
                  (''error'', JNull)],
           JDict [(''spreadsheet_id'', JStr ''missing''), (''title'', JNull),
                  (''sheets'', JList []),
                  (''error'', JStr ''Error fetching spreadsheet missing: HttpError 404'')]],
      authed_world\<lparr>remote := 3\<rparr>)"
  by (simp add: get_multiple_spreadsheet_summary_def ensure_authenticated_def
      summarize_spreadsheet_def summarize_sheet_def summary_dict_def sheet_summary_dict_def
      spreadsheet_error_def first_item_def rows_after_header_def format_value_def
      example_env_def example_defs python_defs)

theorem outcome_fields_witness:
  "list_all2 (\<lambda>q entry. (has_key entry ''data'' \<or> has_key entry ''error'')
                \<and> (map_of q ''data'' = None \<and> map_of q ''error'' = None \<longrightarrow>
                     \<not> (has_key entry ''data'' \<and> has_key entry ''error'')))
     [complete_query, incomplete_query]
     [JDict [(''spreadsheet_id'', JStr ''book1''), (''sheet'', JStr ''Sheet1''),
             (''range'', JStr ''A1:B2''), (''data'', JList [JList [JStr ''name'']])],
      JDict [(''sheet'', JStr ''Sheet1''), (''range'', JStr ''A1:B2''),
             (''error'', JStr ''Missing required keys (spreadsheet_id, sheet, range)'')]]
   \<and> (\<exists>S F.
         JDict [(''successes'', JList [
                   JDict [(''email_address'', JStr ''ann@example.com''), (''role'', JStr ''reader''),
                          (''permissionId'', JStr ''perm1'')]]),
                (''failures'', JList [
                   JDict [(''email_address'', JStr ''denied@example.com''),
                          (''error'', JStr ''Failed to share: denied'')],
                   JDict [(''email_address'', JNull),
                          (''error'', JStr ''Missing email_address in recipient entry.'')]])]
           = JDict [(''successes'', JList S), (''failures'', JList F)]
       \<and> (\<forall>entry\<in>set S. has_key entry ''permissionId'' \<and> \<not> has_key entry ''error'')
       \<and> (\<forall>entry\<in>set F. has_key entry ''error'' \<and> \<not> has_key entry ''permissionId''))
   \<and> list_all2 (\<lambda>sid entry. \<exists>title sheets err.
                    entry = JDict [(''spreadsheet_id'', JStr sid), (''title'', title),
                                   (''sheets'', JList sheets), (''error'', err)]
                  \<and> (err = JNull \<or> (\<exists>m. err = JStr m \<and> sheets = [])))
       [''book1'', ''missing'']
       [JDict [(''spreadsheet_id'', JStr ''book1''), (''title'', JStr ''Book''),
               (''sheets'', JList [
                  JDict [(''title'', JStr ''Sheet1''), (''sheet_id'', JInt 0),
                         (''headers'', JList [JStr ''name'']), (''first_rows'', JList []),
                         (''error'', JNull)]]),
               (''error'', JNull)],
        JDict [(''spreadsheet_id'', JStr ''missing''), (''title'', JNull),
               (''sheets'', JList []),
               (''error'', JStr ''Error fetching spreadsheet missing: HttpError 404'')]]"
  using outcome_fields [where e = example_env and api = book_api and w = authed_world
      and queries = "[complete_query, incomplete_query]"
      and recipients = "[ann, denied, nobody]" and spreadsheet_id = "Some ''book1''"
      and notify = True and ids = "[''book1'', ''missing'']" and rows = 5,
      THEN conjunct1, THEN mp, OF fetch_two_queries]
    outcome_fields [where e = example_env and api = book_api and w = authed_world
      and queries = "[complete_query, incomplete_query]"
      and recipients = "[ann, denied, nobody]" and spreadsheet_id = "Some ''book1''"
      and notify = True and ids = "[''book1'', ''missing'']" and rows = 5,
      THEN conjunct2, THEN conjunct1, THEN mp, OF share_three_recipients]
    outcome_fields [where e = example_env and api = book_api and w = authed_world
      and queries = "[complete_query, incomplete_query]"
      and recipients = "[ann, denied, nobody]" and spreadsheet_id = "Some ''book1''"
      and notify = True and ids = "[''book1'', ''missing'']" and rows = 5,
      THEN conjunct2, THEN conjunct2, THEN mp, OF summarize_two_spreadsheets]
  by (intro conjI)

text \<open>
  C8, as it is stated, fails: a query that already carries an error key (an entry of
  an earlier result sent again, say) and whose range is fetched comes back with both
  its error and the data.
\<close>

theorem entry_with_both_fields_counterexample:
  "get_multiple_sheet_data example_env book_api [labelled_query] authed_world =
     (Inr [JDict [(''spreadsheet_id'', JStr ''book1''), (''sheet'', JStr ''Sheet1''),
                  (''range'', JStr ''A1:B2''), (''error'', JStr ''none so far''),
                  (''data'', JList [JList [JStr ''name'']])]],
      authed_world\<lparr>remote := 1\<rparr>)
   \<and> has_key (JDict [(''spreadsheet_id'', JStr ''book1''), (''sheet'', JStr ''Sheet1''),
                     (''range'', JStr ''A1:B2''), (''error'', JStr ''none so far''),
                     (''data'', JList [JList [JStr ''name'']])]) ''data''
   \<and> has_key (JDict [(''spreadsheet_id'', JStr ''book1''), (''sheet'', JStr ''Sheet1''),
                     (''range'', JStr ''A1:B2''), (''error'', JStr ''none so far''),
                     (''data'', JList [JList [JStr ''name'']])]) ''error''"
  by (simp add: get_multiple_sheet_data_def ensure_authenticated_def fetch_query_def has_key_def
      example_defs python_defs)

section \<open>A failure that is not caught\<close>

text \<open>
  C3 at a failing input. The backend refuses the first of two recipients with the
  error body \<^verbatim>\<open>{"error": "forbidden"}\<close>: the handler of share\_spreadsheet calls
  \<^verbatim>\<open>.get\<close> on the string, the \<^verbatim>\<open>AttributeError\<close> leaves the function, and the second
  recipient is never processed (one request was executed). With the error body
  \<^verbatim>\<open>{"error": {"message": "denied"}}\<close> the failure is recorded and the second
  recipient is shared with.
\<close>

theorem share_spreadsheet_aborts:
  "share_spreadsheet example_env book_api [odd, bob] (Some ''book1'') True authed_world =
     (Inl (raise_error ''AttributeError: object has no attribute get''),
      authed_world\<lparr>remote := 1\<rparr>)
   \<and> share_spreadsheet example_env book_api [denied, bob] (Some ''book1'') True authed_world =
     (Inr (JDict [(''successes'', JList [
                     JDict [(''email_address'', JStr ''bob@example.com''), (''role'', JStr ''writer''),
                            (''permissionId'', JStr ''perm1'')]]),
                  (''failures'', JList [
                     JDict [(''email_address'', JStr ''denied@example.com''),
                            (''error'', JStr ''Failed to share: denied'')]])]),
      authed_world\<lparr>remote := 2\<rparr>)"
  by (simp add: share_spreadsheet_def get_spreadsheet_id_def ensure_authenticated_def
      share_recipient_def share_failure_def error_details_def format_value_def
      example_defs python_defs)


section \<open>create\_spreadsheet and the working folder\<close>




section \<open>The order of the authentication strategies\<close>













end
